theory Spec2Isabelle
  imports Complex_Main
begin

section \<open>The C library, as far as budc\_scpi.c uses it\<close>

text \<open>
  A C string is modelled by the characters before its terminating NUL. Bytes that come
  from the serial line may hold a NUL anywhere; \<open>cstr\<close> is the string a \<^verbatim>\<open>char*\<close> to
  such bytes denotes.
\<close>

definition cstr :: "string \<Rightarrow> string" where
  "cstr bs = takeWhile (\<lambda>c. c \<noteq> CHR 0x00) bs"

text \<open>\<^verbatim>\<open>isspace\<close> and \<^verbatim>\<open>isdigit\<close> in the C locale.\<close>

definition isspace :: "char \<Rightarrow> bool" where
  "isspace c = (c \<in> set [CHR 0x20, CHR 0x09, CHR 0x0A, CHR 0x0B, CHR 0x0C, CHR 0x0D])"

definition isdigit :: "char \<Rightarrow> bool" where
  "isdigit c = (c \<in> set ''0123456789'')"

text \<open>
  \<^verbatim>\<open>atoi\<close>: leading white space, an optional sign, then decimal digits up to the first
  character that is not one. C leaves the result undefined when the number does not fit
  an \<^verbatim>\<open>int\<close>; the model does what glibc does on a 64-bit system, where \<^verbatim>\<open>atoi\<close> is
  \<^verbatim>\<open>(int) strtol(s, NULL, 10)\<close>: the number saturates at the limits of \<^verbatim>\<open>long\<close> and the
  conversion to \<^verbatim>\<open>int\<close> keeps its low 32 bits.
\<close>

fun atoi_digits :: "int \<Rightarrow> string \<Rightarrow> int" where
  "atoi_digits acc [] = acc"
| "atoi_digits acc (c # cs) =
     (if isdigit c then atoi_digits (acc * 10 + (of_char c - 48)) cs else acc)"

definition strtol10 :: "string \<Rightarrow> int" where
  "strtol10 s =
     max (- (2 ^ 63)) (min (2 ^ 63 - 1)
       (case dropWhile isspace s of
          [] \<Rightarrow> 0
        | c # cs \<Rightarrow>
            if c = CHR ''-'' then - atoi_digits 0 cs
            else if c = CHR ''+'' then atoi_digits 0 cs
            else atoi_digits 0 (c # cs)))"

definition int_of_long :: "int \<Rightarrow> int" where
  "int_of_long v = (v + 2 ^ 31) mod 2 ^ 32 - 2 ^ 31"

definition atoi :: "string \<Rightarrow> int" where
  "atoi s = int_of_long (strtol10 s)"

text \<open>A string in which \<^verbatim>\<open>atoi\<close> finds no number: no digit after the optional sign.\<close>

definition non_numeric :: "string \<Rightarrow> bool" where
  "non_numeric r =
     (case dropWhile isspace r of
        [] \<Rightarrow> True
      | c # cs \<Rightarrow>
          if c = CHR ''-'' \<or> c = CHR ''+''
          then (case cs of [] \<Rightarrow> True | d # ds \<Rightarrow> \<not> isdigit d)
          else \<not> isdigit c)"

text \<open>
  Floating-point values by their IEEE class; a finite value is the real number it stands
  for. The platform's C library and arithmetic are parameters of the functions that use
  them: \<^verbatim>\<open>atof\<close>, the conversion from \<^verbatim>\<open>double\<close> to \<^verbatim>\<open>float\<close>, the \<^verbatim>\<open>printf\<close> conversion
  \<^verbatim>\<open>%.10g\<close>, the rounding of a real result to a \<^verbatim>\<open>double\<close>, and \<^verbatim>\<open>CLOCKS_PER_SEC\<close>.
\<close>

datatype cfloat = Finite real | PosInf | NegInf | NaN

record libc =
  atof :: "string \<Rightarrow> cfloat"
  to_float :: "cfloat \<Rightarrow> cfloat"
  fmt_g10 :: "cfloat \<Rightarrow> string"
  round_double :: "real \<Rightarrow> cfloat"
  CLOCKS_PER_SEC :: nat

text \<open>
  The comparisons \<^verbatim>\<open>>=\<close>, \<^verbatim>\<open><=\<close>, \<^verbatim>\<open>!=\<close> and \<^verbatim>\<open>>\<close> of a value with a finite constant.
\<close>

fun fge :: "cfloat \<Rightarrow> real \<Rightarrow> bool" where
  "fge (Finite x) k = (x \<ge> k)"
| "fge PosInf k = True"
| "fge NegInf k = False"
| "fge NaN k = False"

fun fle :: "cfloat \<Rightarrow> real \<Rightarrow> bool" where
  "fle (Finite x) k = (x \<le> k)"
| "fle PosInf k = False"
| "fle NegInf k = True"
| "fle NaN k = False"

fun fne :: "cfloat \<Rightarrow> real \<Rightarrow> bool" where
  "fne (Finite x) k = (x \<noteq> k)"
| "fne PosInf k = True"
| "fne NegInf k = True"
| "fne NaN k = True"

fun fgt :: "cfloat \<Rightarrow> real \<Rightarrow> bool" where
  "fgt (Finite x) k = (x > k)"
| "fgt PosInf k = True"
| "fgt NegInf k = False"
| "fgt NaN k = False"

text \<open>
  Division and multiplication of a \<^verbatim>\<open>double\<close> by a positive finite constant, rounded as
  the platform rounds.
\<close>

fun fdiv :: "libc \<Rightarrow> cfloat \<Rightarrow> real \<Rightarrow> cfloat" where
  "fdiv L (Finite x) k = round_double L (x / k)"
| "fdiv L PosInf k = PosInf"
| "fdiv L NegInf k = NegInf"
| "fdiv L NaN k = NaN"

fun fmul :: "libc \<Rightarrow> cfloat \<Rightarrow> real \<Rightarrow> cfloat" where
  "fmul L (Finite x) k = round_double L (x * k)"
| "fmul L PosInf k = PosInf"
| "fmul L NegInf k = NegInf"
| "fmul L NaN k = NaN"

section \<open>The serial line\<close>

text \<open>
  libserialport and the device behind it are the environment. The device is scripted:
  each blocking write and each blocking read takes the next entry of its script. A
  write entry is an error code or the number of bytes the line takes before the
  timeout; a read entry is an error code or the bytes that arrive before the timeout.
  A script that has run out is a device gone silent: nothing is written, nothing
  arrives. The world also keeps the calls made so far and the milliseconds spent in
  \<^verbatim>\<open>scpi_delay\<close> so far, which is less than the time elapsed by what the library calls
  take. The readings of \<^verbatim>\<open>clock()\<close> belong to the environment as well: \<open>clock_at k\<close> is
  what the \<open>k\<close>-th call returns, in clock ticks. The C standard has \<^verbatim>\<open>clock()\<close> count the
  processor time the program has used, which sleeping does not use up.
\<close>

datatype sp_error = SP_ERR_ARG | SP_ERR_FAIL | SP_ERR_MEM | SP_ERR_SUPP

fun sp_code :: "sp_error \<Rightarrow> int" where
  "sp_code SP_ERR_ARG = -1"
| "sp_code SP_ERR_FAIL = -2"
| "sp_code SP_ERR_MEM = -3"
| "sp_code SP_ERR_SUPP = -4"

datatype wr = WrErr sp_error | WrBytes nat

datatype rd = RdErr sp_error | RdBytes string

datatype event = Flush | Write string nat | Read nat nat | Delay nat

record world =
  wr_script :: "wr list"
  rd_script :: "rd list"
  trace :: "event list"
  slept :: nat
  win32 :: bool
  clock_at :: "nat \<Rightarrow> int"
  clock_calls :: nat

definition READ_TIMEOUT_MS :: nat where
  "READ_TIMEOUT_MS = 800"

definition COMMAND_TERMINATOR :: string where
  "COMMAND_TERMINATOR = [CHR 0x0D, CHR 0x0A]"

definition MAX_RETRIES :: nat where
  "MAX_RETRIES = 3"

definition scpi_delay :: "nat \<Rightarrow> world \<Rightarrow> world" where
  "scpi_delay milliseconds w =
     w\<lparr>trace := trace w @ [Delay milliseconds], slept := slept w + milliseconds\<rparr>"

definition sp_flush :: "world \<Rightarrow> world" where
  "sp_flush w = w\<lparr>trace := trace w @ [Flush]\<rparr>"

definition wr_result :: "wr \<Rightarrow> nat \<Rightarrow> int" where
  "wr_result r count = (case r of WrErr e \<Rightarrow> sp_code e | WrBytes n \<Rightarrow> int (min n count))"

definition sp_blocking_write :: "world \<Rightarrow> string \<Rightarrow> nat \<Rightarrow> nat \<Rightarrow> int \<times> world" where
  "sp_blocking_write w buf count timeout_ms =
     (let w' = w\<lparr>trace := trace w @ [Write (take count buf) timeout_ms]\<rparr> in
      case wr_script w of
        [] \<Rightarrow> (0, w')
      | r # rs \<Rightarrow> (wr_result r count, w'\<lparr>wr_script := rs\<rparr>))"

definition rd_result :: "rd \<Rightarrow> nat \<Rightarrow> int \<times> string" where
  "rd_result r count =
     (case r of
        RdErr e \<Rightarrow> (sp_code e, [])
      | RdBytes bs \<Rightarrow> (int (length (take count bs)), take count bs))"

definition sp_blocking_read_next :: "world \<Rightarrow> nat \<Rightarrow> nat \<Rightarrow> int \<times> string \<times> world" where
  "sp_blocking_read_next w count timeout_ms =
     (let w' = w\<lparr>trace := trace w @ [Read count timeout_ms]\<rparr> in
      case rd_script w of
        [] \<Rightarrow> (0, [], w')
      | r # rs \<Rightarrow> (fst (rd_result r count), snd (rd_result r count), w'\<lparr>rd_script := rs\<rparr>))"

section \<open>The device handle and the raw command\<close>

text \<open>
  \<^verbatim>\<open>struct budc_device\<close> holds the port pointer; a pointer is \<open>None\<close> when it is NULL.
  The functions of this section take the handle as the struct a live pointer points to.
\<close>

record budc_device =
  port :: "nat option"

definition budc_is_connected :: "budc_device option \<Rightarrow> bool" where
  "budc_is_connected dev = (case dev of None \<Rightarrow> False | Some d \<Rightarrow> port d \<noteq> None)"

text \<open>
  The trailing loop of \<^verbatim>\<open>trim_whitespace\<close> stops at \<^verbatim>\<open>start\<close>: the first character
  left by the leading loop is never examined.
\<close>

definition trim_whitespace :: "string \<Rightarrow> string" where
  "trim_whitespace str =
     (if str = [] then []
      else case dropWhile isspace str of
             [] \<Rightarrow> []
           | c # cs \<Rightarrow> c # rev (dropWhile isspace (rev cs)))"

text \<open>\<^verbatim>\<open>snprintf\<close> into \<^verbatim>\<open>char full_command[256]\<close> keeps at most 255 characters.\<close>

definition full_command :: "string \<Rightarrow> string" where
  "full_command command = take 255 (command @ COMMAND_TERMINATOR)"

text \<open>
  \<open>response\<close> is the caller's buffer: \<open>None\<close> for a NULL pointer, otherwise the string
  it holds. The result is the return code, the buffer afterwards and the world.
\<close>

definition budc_send_raw_command ::
  "world \<Rightarrow> budc_device option \<Rightarrow> string \<Rightarrow> string option \<Rightarrow> nat
     \<Rightarrow> int \<times> string option \<times> world" where
  "budc_send_raw_command w dev command response response_len =
     (if \<not> budc_is_connected dev then (-1, response, w)
      else
        let w1 = sp_flush w;
            command_len = length (full_command command);
            (write_result, w2) =
              sp_blocking_write w1 (full_command command) command_len READ_TIMEOUT_MS
        in
          if write_result < int command_len then (-1, response, w2)
          else if CHR ''?'' \<in> set command then
            (if response = None \<or> response_len = 0 then (-1, response, w2)
             else
               let w3 = (if win32 w2 then scpi_delay 100 w2 else w2);
                   (bytes_read, bytes, w4) =
                     sp_blocking_read_next w3 (response_len - 1) READ_TIMEOUT_MS
               in
                 if bytes_read > 0 then
                   (let r = trim_whitespace (cstr (take (nat bytes_read) bytes)) in
                    if length r = 0 then (-1, Some r, w4) else (0, Some r, w4))
                 else (-1, Some [], w4))
          else (0, response, w2))"

text \<open>The string a buffer holds; a NULL buffer holds none.\<close>

definition buf_str :: "string option \<Rightarrow> string" where
  "buf_str response = (case response of None \<Rightarrow> [] | Some s \<Rightarrow> s)"

text \<open>
  Names for the steps of one exchange, used to state its properties: the world once the
  command has been handed to the line, whether the line took all of it, what the read
  that follows returns (byte count and bytes), and the string the buffer then holds.
\<close>

definition after_write :: "world \<Rightarrow> string \<Rightarrow> world" where
  "after_write w command =
     snd (sp_blocking_write (sp_flush w) (full_command command)
            (length (full_command command)) READ_TIMEOUT_MS)"

definition written :: "world \<Rightarrow> string \<Rightarrow> bool" where
  "written w command =
     (int (length (full_command command))
        \<le> fst (sp_blocking_write (sp_flush w) (full_command command)
                 (length (full_command command)) READ_TIMEOUT_MS))"

definition reply :: "world \<Rightarrow> string \<Rightarrow> nat \<Rightarrow> int \<times> string" where
  "reply w command response_len =
     (let w2 = after_write w command;
          w3 = (if win32 w2 then scpi_delay 100 w2 else w2);
          r = sp_blocking_read_next w3 (response_len - 1) READ_TIMEOUT_MS
      in (fst r, fst (snd r)))"

definition reply_str :: "world \<Rightarrow> string \<Rightarrow> nat \<Rightarrow> string" where
  "reply_str w command response_len =
     trim_whitespace (cstr (take (nat (fst (reply w command response_len)))
        (snd (reply w command response_len))))"

text \<open>
  A connected handle and a fresh world with given scripts, for concrete runs; its
  processor clock reads 0 at every call.
\<close>

definition dev0 :: "budc_device option" where
  "dev0 = Some \<lparr>port = Some 0\<rparr>"

definition world0 :: "wr list \<Rightarrow> rd list \<Rightarrow> world" where
  "world0 ws rs =
     \<lparr>wr_script = ws, rd_script = rs, trace = [], slept = 0, win32 = False,
      clock_at = (\<lambda>k. 0), clock_calls = 0\<rparr>"

text \<open>
  A C library that knows the few strings the concrete runs parse; the runs compute only
  numbers that a \<^verbatim>\<open>double\<close> holds exactly, so its rounding changes nothing.
\<close>

definition L0 :: libc where
  "L0 = \<lparr>atof = (\<lambda>s. if s = ''0.0'' then Finite 0 else if s = ''25.5'' then Finite (51 / 2)
                      else if s = ''5500000000'' then Finite 5500000000
                      else if s = ''151'' then Finite 151 else NaN),
          to_float = (\<lambda>x. x),
          fmt_g10 = (\<lambda>x. ''5.5''),
          round_double = Finite,
          CLOCKS_PER_SEC = 1000000\<rparr>"

text \<open>
  A world in which the device answers four lock-status queries with \<^verbatim>\<open>0\<close>, at once, and
  the process uses 15.625 ms of processor time from one reading of \<^verbatim>\<open>clock()\<close> to the
  next: with 1000000 ticks to the second, the readings are 0, 15625, 31250 and so on.
\<close>

definition world_cpu :: world where
  "world_cpu =
     \<lparr>wr_script = [WrBytes 7, WrBytes 7, WrBytes 7, WrBytes 7],
      rd_script = [RdBytes ''0'', RdBytes ''0'', RdBytes ''0'', RdBytes ''0''],
      trace = [], slept = 0, win32 = False,
      clock_at = (\<lambda>k. 15625 * int k), clock_calls = 0\<rparr>"

section \<open>The getters\<close>

text \<open>
  Each getter is the \<^verbatim>\<open>for\<close> loop of the source, with the counter \<open>i\<close> as an argument.
  An output parameter is passed as the value the caller's variable holds before the call
  and returned as the value it holds afterwards. The local \<^verbatim>\<open>response\<close> arrays are
  handed to the raw command as an empty buffer of their declared size.
\<close>

function budc_get_identity_loop ::
  "world \<Rightarrow> budc_device option \<Rightarrow> string option \<Rightarrow> nat \<Rightarrow> nat
     \<Rightarrow> int \<times> string option \<times> world" where
  "budc_get_identity_loop w dev buffer len i =
     (if i < MAX_RETRIES then
        (case budc_send_raw_command w dev ''*IDN?'' buffer len of
           (rc, buffer', w1) \<Rightarrow>
             if rc = 0 \<and> length (buf_str buffer') > 5 then (0, buffer', w1)
             else budc_get_identity_loop (scpi_delay 100 w1) dev buffer' len (Suc i))
      else (-1, buffer, w))"
  by pat_completeness auto
termination
  by (relation "measure (\<lambda>(w, dev, buffer, len, i). MAX_RETRIES - i)") auto

definition budc_get_identity ::
  "world \<Rightarrow> budc_device option \<Rightarrow> string option \<Rightarrow> nat \<Rightarrow> int \<times> string option \<times> world" where
  "budc_get_identity w dev buffer len = budc_get_identity_loop w dev buffer len 0"

function budc_get_frequency_ghz_loop ::
  "libc \<Rightarrow> world \<Rightarrow> budc_device option \<Rightarrow> cfloat \<Rightarrow> nat \<Rightarrow> int \<times> cfloat \<times> world" where
  "budc_get_frequency_ghz_loop L w dev freq_ghz i =
     (if i < MAX_RETRIES then
        (case budc_send_raw_command w dev ''FREQ?'' (Some []) 64 of
           (rc, response, w1) \<Rightarrow>
             if rc = 0 then (0, fdiv L (atof L (buf_str response)) 1000000000, w1)
             else budc_get_frequency_ghz_loop L (scpi_delay 100 w1) dev freq_ghz (Suc i))
      else (-1, freq_ghz, w))"
  by pat_completeness auto
termination
  by (relation "measure (\<lambda>(L, w, dev, freq_ghz, i). MAX_RETRIES - i)") auto

definition budc_get_frequency_ghz ::
  "libc \<Rightarrow> world \<Rightarrow> budc_device option \<Rightarrow> cfloat \<Rightarrow> int \<times> cfloat \<times> world" where
  "budc_get_frequency_ghz L w dev freq_ghz = budc_get_frequency_ghz_loop L w dev freq_ghz 0"

function budc_get_lock_status_loop ::
  "world \<Rightarrow> budc_device option \<Rightarrow> bool \<Rightarrow> nat \<Rightarrow> int \<times> bool \<times> world" where
  "budc_get_lock_status_loop w dev is_locked i =
     (if i < MAX_RETRIES then
        (case budc_send_raw_command w dev ''LOCK?'' (Some []) 16 of
           (rc, response, w1) \<Rightarrow>
             if rc = 0 then (0, atoi (buf_str response) = 1, w1)
             else budc_get_lock_status_loop (scpi_delay 100 w1) dev is_locked (Suc i))
      else (-1, is_locked, w))"
  by pat_completeness auto
termination
  by (relation "measure (\<lambda>(w, dev, is_locked, i). MAX_RETRIES - i)") auto

definition budc_get_lock_status ::
  "world \<Rightarrow> budc_device option \<Rightarrow> bool \<Rightarrow> int \<times> bool \<times> world" where
  "budc_get_lock_status w dev is_locked = budc_get_lock_status_loop w dev is_locked 0"

text \<open>The scan of the temperature getter for the start of a number.\<close>

definition num_start :: "string \<Rightarrow> string" where
  "num_start response =
     dropWhile (\<lambda>c. \<not> isdigit c \<and> c \<noteq> CHR ''-'' \<and> c \<noteq> CHR ''.'') response"

function budc_get_temperature_c_loop ::
  "libc \<Rightarrow> world \<Rightarrow> budc_device option \<Rightarrow> cfloat \<Rightarrow> nat \<Rightarrow> int \<times> cfloat \<times> world" where
  "budc_get_temperature_c_loop L w dev temp_c i =
     (if i < 5 then
        (case budc_send_raw_command w dev ''TEMP?'' (Some []) 64 of
           (rc, response, w1) \<Rightarrow>
             if rc = 0 \<and> num_start (buf_str response) \<noteq> []
                \<and> fge (to_float L (atof L (num_start (buf_str response)))) (-50)
                \<and> fle (to_float L (atof L (num_start (buf_str response)))) 150
                \<and> (fne (to_float L (atof L (num_start (buf_str response)))) 0 \<or> i = 4)
             then (0, to_float L (atof L (num_start (buf_str response))), w1)
             else budc_get_temperature_c_loop L (scpi_delay 250 w1) dev temp_c (Suc i))
      else (-1, temp_c, w))"
  by pat_completeness auto
termination
  by (relation "measure (\<lambda>(L, w, dev, temp_c, i). 5 - i)") auto

definition budc_get_temperature_c ::
  "libc \<Rightarrow> world \<Rightarrow> budc_device option \<Rightarrow> cfloat \<Rightarrow> int \<times> cfloat \<times> world" where
  "budc_get_temperature_c L w dev temp_c = budc_get_temperature_c_loop L w dev temp_c 0"

function budc_get_power_level_loop ::
  "world \<Rightarrow> budc_device option \<Rightarrow> int \<Rightarrow> nat \<Rightarrow> int \<times> int \<times> world" where
  "budc_get_power_level_loop w dev power_level i =
     (if i < MAX_RETRIES then
        (case budc_send_raw_command w dev ''PWR?'' (Some []) 16 of
           (rc, response, w1) \<Rightarrow>
             if rc = 0 then (0, atoi (buf_str response), w1)
             else budc_get_power_level_loop (scpi_delay 100 w1) dev power_level (Suc i))
      else (-1, power_level, w))"
  by pat_completeness auto
termination
  by (relation "measure (\<lambda>(w, dev, power_level, i). MAX_RETRIES - i)") auto

definition budc_get_power_level ::
  "world \<Rightarrow> budc_device option \<Rightarrow> int \<Rightarrow> int \<times> int \<times> world" where
  "budc_get_power_level w dev power_level = budc_get_power_level_loop w dev power_level 0"

declare budc_get_identity_loop.simps [simp del]
declare budc_get_frequency_ghz_loop.simps [simp del]
declare budc_get_lock_status_loop.simps [simp del]
declare budc_get_temperature_c_loop.simps [simp del]
declare budc_get_power_level_loop.simps [simp del]

section \<open>The frequency setter\<close>

text \<open>\<^verbatim>\<open>snprintf\<close> into \<^verbatim>\<open>char command[64]\<close> keeps at most 63 characters.\<close>

definition budc_set_frequency_ghz ::
  "libc \<Rightarrow> world \<Rightarrow> budc_device option \<Rightarrow> cfloat \<Rightarrow> int \<times> world" where
  "budc_set_frequency_ghz L w dev freq_ghz =
     (let command = take 63 (''FREQ '' @ fmt_g10 L freq_ghz @ ''GHZ'') in
      case budc_send_raw_command w dev command None 0 of (rc, response, w1) \<Rightarrow> (rc, w1))"

section \<open>Waiting for lock\<close>

text \<open>
  \<^verbatim>\<open>clock()\<close> returns the next reading of the environment's clock. The test of the loop,
  \<^verbatim>\<open>((double)(current - start) / CLOCKS_PER_SEC * 1000.0) > timeout_ms\<close>, is computed in
  \<^verbatim>\<open>double\<close> arithmetic.
\<close>

definition clock :: "world \<Rightarrow> int \<times> world" where
  "clock w = (clock_at w (clock_calls w), w\<lparr>clock_calls := Suc (clock_calls w)\<rparr>)"

definition elapsed_ms :: "libc \<Rightarrow> int \<Rightarrow> int \<Rightarrow> cfloat" where
  "elapsed_ms L current start =
     fmul L (fdiv L (round_double L (real_of_int (current - start))) (real (CLOCKS_PER_SEC L)))
       1000"

text \<open>
  The \<^verbatim>\<open>while (!locked)\<close> loop of \<^verbatim>\<open>budc_wait_for_lock\<close>; \<open>start\<close> is the clock reading
  taken before the loop. Nothing in the code bounds the number of polls: the loop ends
  when a poll reports lock or the clock has advanced far enough. A run in which neither
  ever happens does not return, and has the value \<open>None\<close>.
\<close>

partial_function (option) wait_loop ::
  "libc \<Rightarrow> world \<Rightarrow> budc_device option \<Rightarrow> int \<Rightarrow> nat \<Rightarrow> bool \<Rightarrow> (int \<times> world) option" where
  "wait_loop L w dev start timeout_ms locked =
     (if \<not> locked then
        (case budc_get_lock_status w dev locked of
           (rc, locked', w1) \<Rightarrow>
             if rc = 0 \<and> locked' then Some (0, w1)
             else
               (case clock w1 of
                  (current, w2) \<Rightarrow>
                    if fgt (elapsed_ms L current start) (real timeout_ms) then Some (-1, w2)
                    else wait_loop L (scpi_delay 200 w2) dev start timeout_ms locked'))
      else Some (0, w))"

definition budc_wait_for_lock ::
  "libc \<Rightarrow> world \<Rightarrow> budc_device option \<Rightarrow> nat \<Rightarrow> (int \<times> world) option" where
  "budc_wait_for_lock L w dev timeout_ms =
     (case clock w of (start, w0) \<Rightarrow> wait_loop L w0 dev start timeout_ms False)"

definition budc_set_frequency_and_wait ::
  "libc \<Rightarrow> world \<Rightarrow> budc_device option \<Rightarrow> cfloat \<Rightarrow> nat \<Rightarrow> (int \<times> world) option" where
  "budc_set_frequency_and_wait L w dev freq_ghz timeout_ms =
     (case budc_set_frequency_ghz L w dev freq_ghz of
        (rc, w1) \<Rightarrow>
          if rc \<noteq> 0 then Some (-1, w1)
          else budc_wait_for_lock L (scpi_delay 200 w1) dev timeout_ms)"

section \<open>Notions for stating the retry behaviour\<close>

text \<open>
  One attempt of a getter with a local response array is one raw command on an empty
  buffer: its return code, the string it leaves in the buffer and the world it leaves.
  An attempt that does not return is followed by the getter's delay; \<open>before_attempt k\<close>
  is the world in which attempt \<open>k\<close> (counted from 0) starts when the \<open>k\<close> attempts
  before it did not return.
\<close>

definition attempt_rc :: "budc_device option \<Rightarrow> string \<Rightarrow> nat \<Rightarrow> world \<Rightarrow> int" where
  "attempt_rc dev command len w = fst (budc_send_raw_command w dev command (Some []) len)"

definition attempt_reply :: "budc_device option \<Rightarrow> string \<Rightarrow> nat \<Rightarrow> world \<Rightarrow> string" where
  "attempt_reply dev command len w =
     buf_str (fst (snd (budc_send_raw_command w dev command (Some []) len)))"

definition attempt_world :: "budc_device option \<Rightarrow> string \<Rightarrow> nat \<Rightarrow> world \<Rightarrow> world" where
  "attempt_world dev command len w = snd (snd (budc_send_raw_command w dev command (Some []) len))"

definition failed_attempt ::
  "budc_device option \<Rightarrow> string \<Rightarrow> nat \<Rightarrow> nat \<Rightarrow> world \<Rightarrow> world" where
  "failed_attempt dev command len ms w = scpi_delay ms (attempt_world dev command len w)"

definition before_attempt ::
  "budc_device option \<Rightarrow> string \<Rightarrow> nat \<Rightarrow> nat \<Rightarrow> nat \<Rightarrow> world \<Rightarrow> world" where
  "before_attempt dev command len ms k w = ((failed_attempt dev command len ms) ^^ k) w"

text \<open>
  The identity getter reads into the caller's buffer, which an attempt that does not
  return may have changed: its attempts run on the world together with the buffer.
\<close>

definition idn_ok :: "budc_device option \<Rightarrow> nat \<Rightarrow> world \<times> string option \<Rightarrow> bool" where
  "idn_ok dev len s =
     (case budc_send_raw_command (fst s) dev ''*IDN?'' (snd s) len of
        (rc, buffer', w1) \<Rightarrow> rc = 0 \<and> length (buf_str buffer') > 5)"

definition idn_failed_attempt ::
  "budc_device option \<Rightarrow> nat \<Rightarrow> world \<times> string option \<Rightarrow> world \<times> string option" where
  "idn_failed_attempt dev len s =
     (case budc_send_raw_command (fst s) dev ''*IDN?'' (snd s) len of
        (rc, buffer', w1) \<Rightarrow> (scpi_delay 100 w1, buffer'))"

definition idn_before_attempt ::
  "budc_device option \<Rightarrow> nat \<Rightarrow> nat \<Rightarrow> world \<times> string option \<Rightarrow> world \<times> string option" where
  "idn_before_attempt dev len k s = ((idn_failed_attempt dev len) ^^ k) s"

text \<open>
  What one attempt of the temperature getter reads: whether the exchange succeeded and
  a number starts somewhere in the reply, the value parsed there, and whether attempt
  \<open>i\<close> returns it.
\<close>

definition temp_parsed :: "budc_device option \<Rightarrow> world \<Rightarrow> bool" where
  "temp_parsed dev w =
     (attempt_rc dev ''TEMP?'' 64 w = 0 \<and> num_start (attempt_reply dev ''TEMP?'' 64 w) \<noteq> [])"

definition temp_value :: "libc \<Rightarrow> budc_device option \<Rightarrow> world \<Rightarrow> cfloat" where
  "temp_value L dev w = to_float L (atof L (num_start (attempt_reply dev ''TEMP?'' 64 w)))"

definition temp_ok :: "libc \<Rightarrow> budc_device option \<Rightarrow> nat \<Rightarrow> world \<Rightarrow> bool" where
  "temp_ok L dev i w =
     (temp_parsed dev w \<and> fge (temp_value L dev w) (-50) \<and> fle (temp_value L dev w) 150
      \<and> (fne (temp_value L dev w) 0 \<or> i = 4))"

text \<open>The number of blocking writes issued so far: one for each attempt on a connected handle.\<close>

fun is_write :: "event \<Rightarrow> bool" where
  "is_write (Write buf timeout_ms) = True"
| "is_write e = False"

definition writes_issued :: "world \<Rightarrow> nat" where
  "writes_issued w = length (filter is_write (trace w))"

text \<open>The number of lock-status queries written to the line so far.\<close>

definition lock_queries :: "world \<Rightarrow> nat" where
  "lock_queries w =
     length (filter (\<lambda>e. e = Write (full_command ''LOCK?'') READ_TIMEOUT_MS) (trace w))"

text \<open>
  A poll that the device answers with \<^verbatim>\<open>0\<close>: the loop reads the clock once and either
  gives up or sleeps 200 ms and polls again.
\<close>

definition polled :: "world \<Rightarrow> world" where
  "polled w =
     w\<lparr>wr_script := tl (wr_script w), rd_script := tl (rd_script w),
       trace := trace w @ [Flush, Write (''LOCK?'' @ [CHR 0x0D, CHR 0x0A]) 800, Read 15 800],
       clock_calls := Suc (clock_calls w)\<rparr>"

section \<open>Connecting and disconnecting\<close>

text \<open>
  \<^verbatim>\<open>budc_connect\<close> and \<^verbatim>\<open>budc_disconnect\<close> acquire and release three things: the port
  structure the library allocates for a name, the open connection, and the handle that
  \<^verbatim>\<open>malloc\<close> returns. The system state keeps the port structures not yet freed, the ports
  open, the store of allocated handles by address, and the calls made. What the library
  and the allocator answer is the environment: the port structure found for a name or an
  error, the result of opening a port, the result of each configuration call, and the
  address \<^verbatim>\<open>malloc\<close> returns, if any.
\<close>

datatype sp_return = SP_OK | SP_ERR sp_error

datatype setting =
    Baudrate nat | Bits nat | Parity_none | Stopbits nat | Flowcontrol_none | Dtr_on | Rts_on

datatype call =
    Get_port_by_name string
  | Open_port nat
  | Config nat setting sp_return
  | Malloc
  | Flush_port nat
  | Delay_ms nat
  | Close_port nat
  | Free_port nat
  | Free nat

record sys =
  port_objs :: "nat list"
  open_ports :: "nat list"
  heap :: "nat \<rightharpoonup> budc_device"
  calls :: "call list"

record conn_env =
  port_by_name :: "string \<Rightarrow> sp_error + nat"
  open_rc :: "nat \<Rightarrow> sp_return"
  config_rc :: "setting \<Rightarrow> sp_return"
  malloc_result :: "nat option"

definition sp_get_port_by_name :: "conn_env \<Rightarrow> string \<Rightarrow> sys \<Rightarrow> (sp_error + nat) \<times> sys" where
  "sp_get_port_by_name E name s =
     (case port_by_name E name of
        Inl e \<Rightarrow> (Inl e, s\<lparr>calls := calls s @ [Get_port_by_name name]\<rparr>)
      | Inr p \<Rightarrow> (Inr p, s\<lparr>port_objs := p # port_objs s,
                            calls := calls s @ [Get_port_by_name name]\<rparr>))"

definition sp_open :: "conn_env \<Rightarrow> nat \<Rightarrow> sys \<Rightarrow> sp_return \<times> sys" where
  "sp_open E p s =
     (case open_rc E p of
        SP_OK \<Rightarrow> (SP_OK, s\<lparr>open_ports := p # open_ports s, calls := calls s @ [Open_port p]\<rparr>)
      | SP_ERR e \<Rightarrow> (SP_ERR e, s\<lparr>calls := calls s @ [Open_port p]\<rparr>))"

definition sp_set :: "conn_env \<Rightarrow> nat \<Rightarrow> setting \<Rightarrow> sys \<Rightarrow> sp_return \<times> sys" where
  "sp_set E p x s = (config_rc E x, s\<lparr>calls := calls s @ [Config p x (config_rc E x)]\<rparr>)"

definition sp_close :: "nat \<Rightarrow> sys \<Rightarrow> sys" where
  "sp_close p s = s\<lparr>open_ports := remove1 p (open_ports s), calls := calls s @ [Close_port p]\<rparr>"

definition sp_free_port :: "nat \<Rightarrow> sys \<Rightarrow> sys" where
  "sp_free_port p s = s\<lparr>port_objs := remove1 p (port_objs s), calls := calls s @ [Free_port p]\<rparr>"

definition malloc :: "conn_env \<Rightarrow> sys \<Rightarrow> nat option \<times> sys" where
  "malloc E s =
     (case malloc_result E of
        None \<Rightarrow> (None, s\<lparr>calls := calls s @ [Malloc]\<rparr>)
      | Some a \<Rightarrow> (Some a, s\<lparr>heap := (heap s)(a \<mapsto> \<lparr>port = None\<rparr>),
                             calls := calls s @ [Malloc]\<rparr>))"

definition free :: "nat \<Rightarrow> sys \<Rightarrow> sys" where
  "free a s = s\<lparr>heap := (heap s)(a := None), calls := calls s @ [Free a]\<rparr>"

text \<open>The results of the seven configuration calls are dropped, as in the source.\<close>

definition configure :: "conn_env \<Rightarrow> nat \<Rightarrow> sys \<Rightarrow> sys" where
  "configure E p s =
     (let s1 = snd (sp_set E p (Baudrate 9600) s);
          s2 = snd (sp_set E p (Bits 8) s1);
          s3 = snd (sp_set E p Parity_none s2);
          s4 = snd (sp_set E p (Stopbits 1) s3);
          s5 = snd (sp_set E p Flowcontrol_none s4);
          s6 = snd (sp_set E p Dtr_on s5)
      in snd (sp_set E p Rts_on s6))"

definition budc_connect :: "conn_env \<Rightarrow> sys \<Rightarrow> string \<Rightarrow> nat option \<times> sys" where
  "budc_connect E s port_name =
     (case sp_get_port_by_name E port_name s of
        (Inl e, s1) \<Rightarrow> (None, s1)
      | (Inr p, s1) \<Rightarrow>
          (case sp_open E p s1 of
             (rc, s2) \<Rightarrow>
               if rc \<noteq> SP_OK then (None, sp_free_port p s2)
               else
                 (case malloc E (configure E p s2) of
                    (None, s3) \<Rightarrow> (None, sp_free_port p (sp_close p s3))
                  | (Some dev, s3) \<Rightarrow>
                      (Some dev,
                       s3\<lparr>heap := (heap s3)(dev \<mapsto> \<lparr>port = Some p\<rparr>),
                          calls := calls s3 @ [Flush_port p, Delay_ms 50]\<rparr>))))"

text \<open>
  A handle is an address, or NULL. Reading through an address that does not hold an
  allocated struct has no defined behaviour in C; the model returns a fault.
\<close>

datatype fault = Invalid_pointer

definition budc_disconnect :: "sys \<Rightarrow> nat option \<Rightarrow> fault + sys" where
  "budc_disconnect s dev =
     (case dev of
        None \<Rightarrow> Inr s
      | Some a \<Rightarrow>
          (case heap s a of
             None \<Rightarrow> Inl Invalid_pointer
           | Some d \<Rightarrow>
               (case port d of
                  None \<Rightarrow> Inr (free a s)
                | Some p \<Rightarrow> Inr (free a (sp_free_port p (sp_close p s))))))"

text \<open>Concrete environments and states for the runs below.\<close>

definition env0 :: conn_env where
  "env0 = \<lparr>port_by_name = (\<lambda>name. Inr 1), open_rc = (\<lambda>p. SP_OK),
            config_rc = (\<lambda>x. SP_OK), malloc_result = Some 7\<rparr>"

definition sys0 :: sys where
  "sys0 = \<lparr>port_objs = [], open_ports = [], heap = Map.empty, calls = []\<rparr>"

section \<open>Properties of the raw command\<close>

lemmas run_defs = budc_send_raw_command_def budc_is_connected_def written_def reply_def
  reply_str_def after_write_def full_command_def COMMAND_TERMINATOR_def READ_TIMEOUT_MS_def
  sp_flush_def sp_blocking_write_def sp_blocking_read_next_def wr_result_def rd_result_def
  scpi_delay_def trim_whitespace_def cstr_def isspace_def dev0_def world0_def buf_str_def Let_def

lemma trace_after_write:
  "trace (after_write w command) = trace w @ [Flush, Write (full_command command) READ_TIMEOUT_MS]"
  by (simp add: after_write_def sp_blocking_write_def sp_flush_def Let_def split: list.splits)

lemma scripts_after_write:
  "wr_script (after_write w command) = tl (wr_script w)
   \<and> rd_script (after_write w command) = rd_script w"
  by (simp add: after_write_def sp_blocking_write_def sp_flush_def Let_def split: list.splits)

lemma full_command_terminated:
  "length command \<le> 253 \<Longrightarrow> full_command command = command @ COMMAND_TERMINATOR"
  by (simp add: full_command_def COMMAND_TERMINATOR_def)

lemma trim_whitespace_Nil: "dropWhile isspace s = [] \<Longrightarrow> trim_whitespace s = []"
  unfolding trim_whitespace_def by (simp only: list.case if_cancel)

lemma trim_whitespace_Cons:
  "dropWhile isspace s = c # cs \<Longrightarrow> trim_whitespace s = c # rev (dropWhile isspace (rev cs))"
  unfolding trim_whitespace_def
  by (cases "s = []") (simp_all only: list.case if_False dropWhile.simps, simp)

lemma trim_whitespace_decomp:
  "\<exists>a b. s = a @ trim_whitespace s @ b \<and> (\<forall>c\<in>set a. isspace c) \<and> (\<forall>c\<in>set b. isspace c)"
proof (cases "dropWhile isspace s")
  case Nil
  then have "\<forall>c\<in>set s. isspace c" by (simp add: dropWhile_eq_Nil_conv)
  moreover have "trim_whitespace s = []" using Nil by (rule trim_whitespace_Nil)
  ultimately show ?thesis by (intro exI[of _ s] exI[of _ "[]"]) simp
next
  case (Cons c cs)
  let ?a = "takeWhile isspace s"
  let ?b = "rev (takeWhile isspace (rev cs))"
  have s: "s = ?a @ c # cs" using Cons by (metis takeWhile_dropWhile_id)
  have cs: "cs = rev (dropWhile isspace (rev cs)) @ ?b"
    by (metis rev_append rev_rev_ident takeWhile_dropWhile_id)
  have t: "trim_whitespace s = c # rev (dropWhile isspace (rev cs))"
    using Cons by (rule trim_whitespace_Cons)
  have "s = ?a @ trim_whitespace s @ ?b" using s cs t by simp
  moreover have "\<forall>c\<in>set ?a. isspace c" by (metis set_takeWhileD)
  moreover have "\<forall>c\<in>set ?b. isspace c" by (metis set_rev set_takeWhileD)
  ultimately show ?thesis by blast
qed

lemma trim_whitespace_ends:
  assumes "trim_whitespace s \<noteq> []"
  shows "\<not> isspace (hd (trim_whitespace s)) \<and> \<not> isspace (last (trim_whitespace s))"
proof (cases "dropWhile isspace s")
  case Nil
  then show ?thesis using assms trim_whitespace_Nil by blast
next
  case (Cons c cs)
  have t: "trim_whitespace s = c # rev (dropWhile isspace (rev cs))"
    using Cons by (rule trim_whitespace_Cons)
  have c: "\<not> isspace c" using Cons by (metis hd_dropWhile list.sel(1) list.discI)
  show ?thesis
  proof (cases "dropWhile isspace (rev cs)")
    case Nil
    then show ?thesis using t c by simp
  next
    case (Cons d ds)
    have "\<not> isspace d" using Cons by (metis hd_dropWhile list.sel(1) list.discI)
    then show ?thesis using t c Cons by simp
  qed
qed

lemma send_raw_rc:
  "fst (budc_send_raw_command w dev command response response_len) = 0
   \<or> fst (budc_send_raw_command w dev command response response_len) = -1"
  by (auto simp: budc_send_raw_command_def Let_def split: prod.splits if_splits)

lemma send_raw_query_ok_iff:
  assumes "CHR ''?'' \<in> set command"
  shows "fst (budc_send_raw_command w dev command response response_len) = 0 \<longleftrightarrow>
     budc_is_connected dev \<and> written w command \<and> response \<noteq> None \<and> response_len \<noteq> 0
     \<and> 0 < fst (reply w command response_len) \<and> reply_str w command response_len \<noteq> []"
  using assms
  by (auto simp: budc_send_raw_command_def written_def reply_def reply_str_def after_write_def
      Let_def split: prod.splits if_splits)

lemma send_raw_query_ok_buf:
  assumes "CHR ''?'' \<in> set command"
    and "fst (budc_send_raw_command w dev command response response_len) = 0"
  shows "fst (snd (budc_send_raw_command w dev command response response_len))
           = Some (reply_str w command response_len)"
  using assms
  by (auto simp: budc_send_raw_command_def written_def reply_def reply_str_def after_write_def
      Let_def split: prod.splits if_splits)

lemma send_raw_set_ok:
  assumes "CHR ''?'' \<notin> set command" and "budc_is_connected dev" and "written w command"
  shows "budc_send_raw_command w dev command response response_len
           = (0, response, after_write w command)"
  using assms
  by (auto simp: budc_send_raw_command_def written_def after_write_def Let_def
      split: prod.splits if_splits)

lemma send_raw_query_no_buffer:
  assumes "CHR ''?'' \<in> set command" and "budc_is_connected dev"
    and "response = None \<or> response_len = 0"
  shows "budc_send_raw_command w dev command response response_len
           = (-1, response, after_write w command)"
  using assms
  by (auto simp: budc_send_raw_command_def written_def after_write_def Let_def
      split: prod.splits if_splits)

text \<open>
  C6. For a query command, the call succeeds exactly when the handle is connected, the
  whole terminated command is written, there is a response buffer, and the read returns
  a positive number of bytes whose string is not empty once trimmed; every other outcome
  is the failure code. On success the buffer holds that string: the bytes read without
  their leading and trailing white space, never the empty string. For a command without
  the query marker, once the whole terminated command is written the call returns
  success, leaves the buffer as it was and issues no read.
\<close>

theorem send_raw_command_response:
  "(CHR ''?'' \<in> set command \<longrightarrow>
      (fst (budc_send_raw_command w dev command response response_len) = 0 \<longleftrightarrow>
         budc_is_connected dev \<and> written w command \<and> response \<noteq> None \<and> response_len \<noteq> 0
         \<and> 0 < fst (reply w command response_len) \<and> reply_str w command response_len \<noteq> [])
    \<and> (fst (budc_send_raw_command w dev command response response_len) \<noteq> 0 \<longrightarrow>
         fst (budc_send_raw_command w dev command response response_len) = -1)
    \<and> (fst (budc_send_raw_command w dev command response response_len) = 0 \<longrightarrow>
         fst (snd (budc_send_raw_command w dev command response response_len))
           = Some (reply_str w command response_len)
         \<and> reply_str w command response_len \<noteq> []
         \<and> \<not> isspace (hd (reply_str w command response_len))
         \<and> \<not> isspace (last (reply_str w command response_len))
         \<and> (\<exists>a b. cstr (take (nat (fst (reply w command response_len)))
                        (snd (reply w command response_len)))
                     = a @ reply_str w command response_len @ b
                   \<and> (\<forall>c\<in>set a. isspace c) \<and> (\<forall>c\<in>set b. isspace c))))
   \<and> (CHR ''?'' \<notin> set command \<longrightarrow> budc_is_connected dev \<longrightarrow> written w command \<longrightarrow>
        budc_send_raw_command w dev command response response_len
          = (0, response, after_write w command)
        \<and> trace (after_write w command)
            = trace w @ [Flush, Write (full_command command) READ_TIMEOUT_MS])"
proof (intro conjI impI)
  assume q: "CHR ''?'' \<in> set command"
  show "fst (budc_send_raw_command w dev command response response_len) = 0 \<longleftrightarrow>
         budc_is_connected dev \<and> written w command \<and> response \<noteq> None \<and> response_len \<noteq> 0
         \<and> 0 < fst (reply w command response_len) \<and> reply_str w command response_len \<noteq> []"
    using q by (rule send_raw_query_ok_iff)
  assume ok: "fst (budc_send_raw_command w dev command response response_len) = 0"
  show "fst (snd (budc_send_raw_command w dev command response response_len))
           = Some (reply_str w command response_len)"
    using q ok by (rule send_raw_query_ok_buf)
  show ne: "reply_str w command response_len \<noteq> []"
    using send_raw_query_ok_iff[OF q] ok by blast
  show "\<not> isspace (hd (reply_str w command response_len))"
    using trim_whitespace_ends ne unfolding reply_str_def by blast
  show "\<not> isspace (last (reply_str w command response_len))"
    using trim_whitespace_ends ne unfolding reply_str_def by blast
  show "\<exists>a b. cstr (take (nat (fst (reply w command response_len)))
                        (snd (reply w command response_len)))
                     = a @ reply_str w command response_len @ b
                   \<and> (\<forall>c\<in>set a. isspace c) \<and> (\<forall>c\<in>set b. isspace c)"
    unfolding reply_str_def by (rule trim_whitespace_decomp)
next
  assume "fst (budc_send_raw_command w dev command response response_len) \<noteq> 0"
  then show "fst (budc_send_raw_command w dev command response response_len) = -1"
    using send_raw_rc by blast
next
  assume "CHR ''?'' \<notin> set command" "budc_is_connected dev" "written w command"
  then show "budc_send_raw_command w dev command response response_len
          = (0, response, after_write w command)"
    by (rule send_raw_set_ok)
next
  show "trace (after_write w command)
            = trace w @ [Flush, Write (full_command command) READ_TIMEOUT_MS]"
    by (rule trace_after_write)
qed

text \<open>
  A device that answers \<^verbatim>\<open>LOCK?\<close> with \<^verbatim>\<open>" 1\r\n"\<close> yields the string \<^verbatim>\<open>"1"\<close>; one that
  answers with white space only yields failure; \<^verbatim>\<open>SAVE\<close> succeeds without a read.
\<close>

theorem send_raw_command_response_witness:
  "CHR ''?'' \<in> set ''LOCK?''
   \<and> fst (budc_send_raw_command
        (world0 [WrBytes 7] [RdBytes (CHR 0x20 # ''1'' @ [CHR 0x0D, CHR 0x0A])])
        dev0 ''LOCK?'' (Some []) 16) = 0
   \<and> fst (snd (budc_send_raw_command
        (world0 [WrBytes 7] [RdBytes (CHR 0x20 # ''1'' @ [CHR 0x0D, CHR 0x0A])])
        dev0 ''LOCK?'' (Some []) 16)) = Some ''1''
   \<and> reply_str (world0 [WrBytes 7] [RdBytes [CHR 0x20, CHR 0x0D, CHR 0x0A]]) ''LOCK?'' 16 = []
   \<and> fst (budc_send_raw_command (world0 [WrBytes 7] [RdBytes [CHR 0x20, CHR 0x0D, CHR 0x0A]])
        dev0 ''LOCK?'' (Some []) 16) = -1
   \<and> CHR ''?'' \<notin> set ''SAVE'' \<and> budc_is_connected dev0 \<and> written (world0 [WrBytes 6] []) ''SAVE''
   \<and> budc_send_raw_command (world0 [WrBytes 6] []) dev0 ''SAVE'' None 0
      = (0, None, after_write (world0 [WrBytes 6] []) ''SAVE'')
   \<and> trace (after_write (world0 [WrBytes 6] []) ''SAVE'')
      = [Flush, Write (''SAVE'' @ [CHR 0x0D, CHR 0x0A]) 800]"
proof -
  let ?w1 = "world0 [WrBytes 7] [RdBytes (CHR 0x20 # ''1'' @ [CHR 0x0D, CHR 0x0A])]"
  let ?w2 = "world0 [WrBytes 7] [RdBytes [CHR 0x20, CHR 0x0D, CHR 0x0A]]"
  let ?w3 = "world0 [WrBytes 6] []"
  have q: "CHR ''?'' \<in> set ''LOCK?''" by simp
  have c: "budc_is_connected dev0" by (simp add: run_defs)
  have w1: "written ?w1 ''LOCK?''" by (simp add: run_defs)
  have n1: "0 < fst (reply ?w1 ''LOCK?'' 16)" by (simp add: run_defs)
  have r1: "reply_str ?w1 ''LOCK?'' 16 = ''1''" by (simp add: run_defs)
  have r2: "reply_str ?w2 ''LOCK?'' 16 = []" by (simp add: run_defs)
  have nq: "CHR ''?'' \<notin> set ''SAVE''" by simp
  have w3: "written ?w3 ''SAVE''" by (simp add: run_defs)
  have t3: "trace ?w3 = []" by (simp add: world0_def)
  have f3: "full_command ''SAVE'' = ''SAVE'' @ [CHR 0x0D, CHR 0x0A]"
    by (simp add: full_command_def COMMAND_TERMINATOR_def)
  note A = send_raw_command_response[of "''LOCK?''" ?w1 dev0 "Some []" 16]
  note B = send_raw_command_response[of "''LOCK?''" ?w2 dev0 "Some []" 16]
  note C = send_raw_command_response[of "''SAVE''" ?w3 dev0 None 0]
  have a0: "fst (budc_send_raw_command ?w1 dev0 ''LOCK?'' (Some []) 16) = 0"
    using A q c w1 n1 r1 by simp
  have a1: "fst (snd (budc_send_raw_command ?w1 dev0 ''LOCK?'' (Some []) 16)) = Some ''1''"
    using A q a0 r1 by simp
  have b0: "fst (budc_send_raw_command ?w2 dev0 ''LOCK?'' (Some []) 16) = -1"
    using B q r2 by simp
  have c0: "budc_send_raw_command ?w3 dev0 ''SAVE'' None 0 = (0, None, after_write ?w3 ''SAVE'')"
    using C nq c w3 by blast
  have c1: "trace (after_write ?w3 ''SAVE'') = [Flush, Write (''SAVE'' @ [CHR 0x0D, CHR 0x0A]) 800]"
    using C nq c w3 t3 f3 by (simp add: READ_TIMEOUT_MS_def)
  show ?thesis using q a0 a1 r2 b0 nq c w3 c0 c1 by simp
qed

text \<open>
  C10. A query command given no response buffer (a NULL pointer or a length of zero)
  fails, and it fails after the write: the buffers have been flushed and the terminated
  command handed to the line, whose script entry is consumed, while no read is issued.
  This is so also when the line took the whole command.
\<close>

theorem send_raw_query_without_buffer:
  assumes "CHR ''?'' \<in> set command" and "budc_is_connected dev"
    and "response = None \<or> response_len = 0"
  shows "budc_send_raw_command w dev command response response_len
           = (-1, response, after_write w command)
         \<and> trace (after_write w command)
             = trace w @ [Flush, Write (full_command command) READ_TIMEOUT_MS]
         \<and> wr_script (after_write w command) = tl (wr_script w)
         \<and> rd_script (after_write w command) = rd_script w
         \<and> (length command \<le> 253 \<longrightarrow> full_command command = command @ COMMAND_TERMINATOR)"
  using send_raw_query_no_buffer[OF assms] trace_after_write scripts_after_write
    full_command_terminated by blast

theorem send_raw_query_without_buffer_witness:
  "CHR ''?'' \<in> set ''TEMP?'' \<and> budc_is_connected dev0
   \<and> written (world0 [WrBytes 7] [RdBytes ''25.0'']) ''TEMP?''
   \<and> budc_send_raw_command (world0 [WrBytes 7] [RdBytes ''25.0'']) dev0 ''TEMP?'' None 64
      = (-1, None, after_write (world0 [WrBytes 7] [RdBytes ''25.0'']) ''TEMP?'')
   \<and> trace (after_write (world0 [WrBytes 7] [RdBytes ''25.0'']) ''TEMP?'')
      = [Flush, Write (''TEMP?'' @ [CHR 0x0D, CHR 0x0A]) 800]
   \<and> wr_script (after_write (world0 [WrBytes 7] [RdBytes ''25.0'']) ''TEMP?'') = []
   \<and> rd_script (after_write (world0 [WrBytes 7] [RdBytes ''25.0'']) ''TEMP?'') = [RdBytes ''25.0'']"
proof -
  let ?w = "world0 [WrBytes 7] [RdBytes ''25.0'']"
  have q: "CHR ''?'' \<in> set ''TEMP?''" by simp
  have c: "budc_is_connected dev0" by (simp add: run_defs)
  have wr: "written ?w ''TEMP?''" by (simp add: run_defs)
  have s: "trace ?w = [] \<and> wr_script ?w = [WrBytes 7] \<and> rd_script ?w = [RdBytes ''25.0'']"
    by (simp add: world0_def)
  have f: "full_command ''TEMP?'' = ''TEMP?'' @ [CHR 0x0D, CHR 0x0A]"
    by (simp add: full_command_def COMMAND_TERMINATOR_def)
  note A = send_raw_query_without_buffer[of "''TEMP?''" dev0 None 64 ?w, OF q c]
  show ?thesis using A q c wr s f by (simp add: READ_TIMEOUT_MS_def)
qed

section \<open>The retry loops\<close>

text \<open>
  Every getter has the same loop: up to a ceiling of attempts, return at the first attempt
  that is accepted, otherwise delay and go on. The three lemmas that follow hold for any
  loop of that shape; each getter is then shown to be one.
\<close>

lemma retry_exhaust:
  fixes loop :: "'s \<Rightarrow> nat \<Rightarrow> 'r"
  assumes unfold: "\<And>s i. loop s i =
      (if i < c then (if ok i s then ret i s else loop (step s) (Suc i)) else done s)"
    and fails: "\<forall>k < c - i. \<not> ok (i + k) ((step ^^ k) s)"
  shows "loop s i = done ((step ^^ (c - i)) s)"
  using fails
proof (induction "c - i" arbitrary: i s)
  case 0
  then show ?case using unfold[of s i] by simp
next
  case (Suc m)
  have lt: "i < c" using Suc.hyps(2) by simp
  have "\<not> ok i s" using Suc.prems lt by (auto dest: spec[of _ 0])
  then have "loop s i = loop (step s) (Suc i)" using unfold[of s i] lt by simp
  also have "\<dots> = done ((step ^^ (c - Suc i)) (step s))"
  proof (rule Suc.hyps(1))
    show "m = c - Suc i" using Suc.hyps(2) by simp
    show "\<forall>k<c - Suc i. \<not> ok (Suc i + k) ((step ^^ k) (step s))"
    proof (intro allI impI)
      fix k assume "k < c - Suc i"
      then have "Suc k < c - i" by simp
      then have "\<not> ok (i + Suc k) ((step ^^ Suc k) s)" using Suc.prems by blast
      then show "\<not> ok (Suc i + k) ((step ^^ k) (step s))" by (simp add: funpow_swap1)
    qed
  qed
  also have "(step ^^ (c - Suc i)) (step s) = (step ^^ (c - i)) s"
    using lt by (metis Suc_diff_Suc funpow.simps(2) funpow_swap1 o_apply)
  finally show ?case .
qed

lemma retry_success:
  fixes loop :: "'s \<Rightarrow> nat \<Rightarrow> 'r"
  assumes unfold: "\<And>s i. loop s i =
      (if i < c then (if ok i s then ret i s else loop (step s) (Suc i)) else done s)"
    and "i + n < c"
    and "\<forall>k < n. \<not> ok (i + k) ((step ^^ k) s)"
    and "ok (i + n) ((step ^^ n) s)"
  shows "loop s i = ret (i + n) ((step ^^ n) s)"
  using assms(2-)
proof (induction n arbitrary: i s)
  case 0
  then show ?case using unfold[of s i] by simp
next
  case (Suc n)
  have "\<not> ok i s" using Suc.prems(2) by (auto dest: spec[of _ 0])
  then have "loop s i = loop (step s) (Suc i)" using unfold[of s i] Suc.prems(1) by simp
  also have "\<dots> = ret (Suc i + n) ((step ^^ n) (step s))"
  proof (rule Suc.IH)
    show "Suc i + n < c" using Suc.prems(1) by simp
    show "\<forall>k<n. \<not> ok (Suc i + k) ((step ^^ k) (step s))"
    proof (intro allI impI)
      fix k assume "k < n"
      then have "\<not> ok (i + Suc k) ((step ^^ Suc k) s)" using Suc.prems(2) by blast
      then show "\<not> ok (Suc i + k) ((step ^^ k) (step s))" by (simp add: funpow_swap1)
    qed
    show "ok (Suc i + n) ((step ^^ n) (step s))"
      using Suc.prems(3) by (simp add: funpow_swap1)
  qed
  finally show ?case by (simp add: funpow_swap1)
qed

lemma retry_cases:
  fixes loop :: "'s \<Rightarrow> nat \<Rightarrow> 'r"
  assumes unfold: "\<And>s i. loop s i =
      (if i < c then (if ok i s then ret i s else loop (step s) (Suc i)) else done s)"
  shows "(\<exists>n. i + n < c \<and> (\<forall>k < n. \<not> ok (i + k) ((step ^^ k) s)) \<and> ok (i + n) ((step ^^ n) s)
              \<and> loop s i = ret (i + n) ((step ^^ n) s))
         \<or> ((\<forall>k < c - i. \<not> ok (i + k) ((step ^^ k) s)) \<and> loop s i = done ((step ^^ (c - i)) s))"
proof (cases "\<exists>k < c - i. ok (i + k) ((step ^^ k) s)")
  case False
  then have f: "\<forall>k < c - i. \<not> ok (i + k) ((step ^^ k) s)" by blast
  then show ?thesis using retry_exhaust[of loop c ok ret step "done", OF unfold f] by blast
next
  case True
  define n where "n = (LEAST k. k < c - i \<and> ok (i + k) ((step ^^ k) s))"
  have n: "n < c - i \<and> ok (i + n) ((step ^^ n) s)"
    unfolding n_def using True by (metis (mono_tags, lifting) LeastI)
  have least: "\<forall>k < n. \<not> ok (i + k) ((step ^^ k) s)"
  proof (intro allI impI notI)
    fix k assume k: "k < n" and "ok (i + k) ((step ^^ k) s)"
    then have "k < c - i \<and> ok (i + k) ((step ^^ k) s)" using n by simp
    then have "n \<le> k" unfolding n_def by (rule Least_le)
    with k show False by simp
  qed
  have lt: "i + n < c" using n by linarith
  show ?thesis
    using retry_success[of loop c ok ret step "done", OF unfold lt least] n lt least by blast
qed


lemma power_unfold:
  "budc_get_power_level_loop w dev out i =
     (if i < MAX_RETRIES then
        (if attempt_rc dev ''PWR?'' 16 w = 0
         then (0, atoi (attempt_reply dev ''PWR?'' 16 w), attempt_world dev ''PWR?'' 16 w)
         else budc_get_power_level_loop (failed_attempt dev ''PWR?'' 16 100 w) dev out (Suc i))
      else (-1, out, w))"
  by (simp add: budc_get_power_level_loop.simps[of w] attempt_rc_def attempt_reply_def
      attempt_world_def failed_attempt_def split: prod.splits)

lemma lock_unfold:
  "budc_get_lock_status_loop w dev out i =
     (if i < MAX_RETRIES then
        (if attempt_rc dev ''LOCK?'' 16 w = 0
         then (0, atoi (attempt_reply dev ''LOCK?'' 16 w) = 1, attempt_world dev ''LOCK?'' 16 w)
         else budc_get_lock_status_loop (failed_attempt dev ''LOCK?'' 16 100 w) dev out (Suc i))
      else (-1, out, w))"
  by (simp add: budc_get_lock_status_loop.simps[of w] attempt_rc_def attempt_reply_def
      attempt_world_def failed_attempt_def split: prod.splits)

lemma freq_unfold:
  "budc_get_frequency_ghz_loop L w dev out i =
     (if i < MAX_RETRIES then
        (if attempt_rc dev ''FREQ?'' 64 w = 0
         then (0, fdiv L (atof L (attempt_reply dev ''FREQ?'' 64 w)) 1000000000,
               attempt_world dev ''FREQ?'' 64 w)
         else budc_get_frequency_ghz_loop L (failed_attempt dev ''FREQ?'' 64 100 w) dev out (Suc i))
      else (-1, out, w))"
  by (simp add: budc_get_frequency_ghz_loop.simps[of L w] attempt_rc_def attempt_reply_def
      attempt_world_def failed_attempt_def split: prod.splits)

lemma temp_unfold:
  "budc_get_temperature_c_loop L w dev out i =
     (if i < 5 then
        (if temp_ok L dev i w
         then (0, temp_value L dev w, attempt_world dev ''TEMP?'' 64 w)
         else budc_get_temperature_c_loop L (failed_attempt dev ''TEMP?'' 64 250 w) dev out (Suc i))
      else (-1, out, w))"
  by (auto simp: budc_get_temperature_c_loop.simps[of L w] temp_ok_def temp_parsed_def
      temp_value_def attempt_rc_def attempt_reply_def attempt_world_def failed_attempt_def
      split: prod.splits)

lemma idn_unfold:
  "budc_get_identity_loop (fst s) dev (snd s) len i =
     (if i < MAX_RETRIES then
        (if idn_ok dev len s
         then (0, snd (budc_send_raw_command (fst s) dev ''*IDN?'' (snd s) len))
         else budc_get_identity_loop (fst (idn_failed_attempt dev len s)) dev
                (snd (idn_failed_attempt dev len s)) len (Suc i))
      else (-1, snd s, fst s))"
  by (simp add: budc_get_identity_loop.simps[of "fst s"] idn_ok_def idn_failed_attempt_def
      split: prod.splits)


lemma before_attempt_0: "before_attempt dev command len ms 0 w = w"
  by (simp add: before_attempt_def)

lemma writes_scpi_delay: "writes_issued (scpi_delay d w) = writes_issued w"
  by (simp add: writes_issued_def scpi_delay_def)

lemma writes_send_raw:
  "budc_is_connected dev \<Longrightarrow>
   writes_issued (snd (snd (budc_send_raw_command w dev command response len)))
     = Suc (writes_issued w)"
  by (auto simp: writes_issued_def budc_send_raw_command_def sp_flush_def sp_blocking_write_def
      sp_blocking_read_next_def scpi_delay_def Let_def split: prod.splits list.splits if_splits)

lemma send_raw_ok_connected:
  "fst (budc_send_raw_command w dev command response len) = 0 \<Longrightarrow> budc_is_connected dev"
  by (auto simp: budc_send_raw_command_def split: if_splits)

lemma writes_before_attempt:
  "budc_is_connected dev \<Longrightarrow>
   writes_issued (before_attempt dev command len ms k w) = writes_issued w + k"
  by (induction k)
     (simp_all add: before_attempt_def failed_attempt_def attempt_world_def writes_scpi_delay
        writes_send_raw)

lemma writes_idn_before_attempt:
  "budc_is_connected dev \<Longrightarrow>
   writes_issued (fst (idn_before_attempt dev len k s)) = writes_issued (fst s) + k"
  by (induction k)
     (simp_all add: idn_before_attempt_def idn_failed_attempt_def writes_scpi_delay
        writes_send_raw split: prod.splits,
      metis writes_send_raw snd_conv)

lemma power_exhaust:
  assumes "\<forall>k<3. attempt_rc dev ''PWR?'' 16 (before_attempt dev ''PWR?'' 16 100 k w) \<noteq> 0"
  shows "budc_get_power_level w dev out = (-1, out, before_attempt dev ''PWR?'' 16 100 3 w)"
  using retry_exhaust[where loop = "\<lambda>w i. budc_get_power_level_loop w dev out i"
      and ok = "\<lambda>i w. attempt_rc dev ''PWR?'' 16 w = 0" and i = 0 and c = MAX_RETRIES
      and step = "failed_attempt dev ''PWR?'' 16 100" and s = w, OF power_unfold] assms
  by (simp add: budc_get_power_level_def before_attempt_def MAX_RETRIES_def)

lemma power_success:
  assumes "n < 3"
    and "\<forall>k<n. attempt_rc dev ''PWR?'' 16 (before_attempt dev ''PWR?'' 16 100 k w) \<noteq> 0"
    and "attempt_rc dev ''PWR?'' 16 (before_attempt dev ''PWR?'' 16 100 n w) = 0"
  shows "budc_get_power_level w dev out
           = (0, atoi (attempt_reply dev ''PWR?'' 16 (before_attempt dev ''PWR?'' 16 100 n w)),
              attempt_world dev ''PWR?'' 16 (before_attempt dev ''PWR?'' 16 100 n w))"
  using retry_success[where loop = "\<lambda>w i. budc_get_power_level_loop w dev out i"
      and ok = "\<lambda>i w. attempt_rc dev ''PWR?'' 16 w = 0" and i = 0 and c = MAX_RETRIES
      and step = "failed_attempt dev ''PWR?'' 16 100" and s = w and n = n, OF power_unfold] assms
  by (simp add: budc_get_power_level_def before_attempt_def MAX_RETRIES_def)

lemma power_cases:
  "(\<exists>n<3. (\<forall>k<n. attempt_rc dev ''PWR?'' 16 (before_attempt dev ''PWR?'' 16 100 k w) \<noteq> 0)
       \<and> attempt_rc dev ''PWR?'' 16 (before_attempt dev ''PWR?'' 16 100 n w) = 0
       \<and> budc_get_power_level w dev out
           = (0, atoi (attempt_reply dev ''PWR?'' 16 (before_attempt dev ''PWR?'' 16 100 n w)),
              attempt_world dev ''PWR?'' 16 (before_attempt dev ''PWR?'' 16 100 n w)))
   \<or> ((\<forall>k<3. attempt_rc dev ''PWR?'' 16 (before_attempt dev ''PWR?'' 16 100 k w) \<noteq> 0)
       \<and> budc_get_power_level w dev out = (-1, out, before_attempt dev ''PWR?'' 16 100 3 w))"
  using retry_cases[where loop = "\<lambda>w i. budc_get_power_level_loop w dev out i"
      and ok = "\<lambda>i w. attempt_rc dev ''PWR?'' 16 w = 0" and i = 0 and c = MAX_RETRIES
      and step = "failed_attempt dev ''PWR?'' 16 100" and s = w, OF power_unfold]
  by (simp add: budc_get_power_level_def before_attempt_def MAX_RETRIES_def)

lemma lock_exhaust:
  assumes "\<forall>k<3. attempt_rc dev ''LOCK?'' 16 (before_attempt dev ''LOCK?'' 16 100 k w) \<noteq> 0"
  shows "budc_get_lock_status w dev out = (-1, out, before_attempt dev ''LOCK?'' 16 100 3 w)"
  using retry_exhaust[where loop = "\<lambda>w i. budc_get_lock_status_loop w dev out i"
      and ok = "\<lambda>i w. attempt_rc dev ''LOCK?'' 16 w = 0" and i = 0 and c = MAX_RETRIES
      and step = "failed_attempt dev ''LOCK?'' 16 100" and s = w, OF lock_unfold] assms
  by (simp add: budc_get_lock_status_def before_attempt_def MAX_RETRIES_def)

lemma lock_success:
  assumes "n < 3"
    and "\<forall>k<n. attempt_rc dev ''LOCK?'' 16 (before_attempt dev ''LOCK?'' 16 100 k w) \<noteq> 0"
    and "attempt_rc dev ''LOCK?'' 16 (before_attempt dev ''LOCK?'' 16 100 n w) = 0"
  shows "budc_get_lock_status w dev out
           = (0, atoi (attempt_reply dev ''LOCK?'' 16 (before_attempt dev ''LOCK?'' 16 100 n w)) = 1,
              attempt_world dev ''LOCK?'' 16 (before_attempt dev ''LOCK?'' 16 100 n w))"
  using retry_success[where loop = "\<lambda>w i. budc_get_lock_status_loop w dev out i"
      and ok = "\<lambda>i w. attempt_rc dev ''LOCK?'' 16 w = 0" and i = 0 and c = MAX_RETRIES
      and step = "failed_attempt dev ''LOCK?'' 16 100" and s = w and n = n, OF lock_unfold] assms
  by (simp add: budc_get_lock_status_def before_attempt_def MAX_RETRIES_def)

lemma lock_cases:
  "(\<exists>n<3. (\<forall>k<n. attempt_rc dev ''LOCK?'' 16 (before_attempt dev ''LOCK?'' 16 100 k w) \<noteq> 0)
       \<and> attempt_rc dev ''LOCK?'' 16 (before_attempt dev ''LOCK?'' 16 100 n w) = 0
       \<and> budc_get_lock_status w dev out
           = (0, atoi (attempt_reply dev ''LOCK?'' 16 (before_attempt dev ''LOCK?'' 16 100 n w)) = 1,
              attempt_world dev ''LOCK?'' 16 (before_attempt dev ''LOCK?'' 16 100 n w)))
   \<or> ((\<forall>k<3. attempt_rc dev ''LOCK?'' 16 (before_attempt dev ''LOCK?'' 16 100 k w) \<noteq> 0)
       \<and> budc_get_lock_status w dev out = (-1, out, before_attempt dev ''LOCK?'' 16 100 3 w))"
  using retry_cases[where loop = "\<lambda>w i. budc_get_lock_status_loop w dev out i"
      and ok = "\<lambda>i w. attempt_rc dev ''LOCK?'' 16 w = 0" and i = 0 and c = MAX_RETRIES
      and step = "failed_attempt dev ''LOCK?'' 16 100" and s = w, OF lock_unfold]
  by (simp add: budc_get_lock_status_def before_attempt_def MAX_RETRIES_def)

lemma freq_exhaust:
  assumes "\<forall>k<3. attempt_rc dev ''FREQ?'' 64 (before_attempt dev ''FREQ?'' 64 100 k w) \<noteq> 0"
  shows "budc_get_frequency_ghz L w dev out = (-1, out, before_attempt dev ''FREQ?'' 64 100 3 w)"
  using retry_exhaust[where loop = "\<lambda>w i. budc_get_frequency_ghz_loop L w dev out i"
      and ok = "\<lambda>i w. attempt_rc dev ''FREQ?'' 64 w = 0" and i = 0 and c = MAX_RETRIES
      and step = "failed_attempt dev ''FREQ?'' 64 100" and s = w, OF freq_unfold] assms
  by (simp add: budc_get_frequency_ghz_def before_attempt_def MAX_RETRIES_def)

lemma freq_success:
  assumes "n < 3"
    and "\<forall>k<n. attempt_rc dev ''FREQ?'' 64 (before_attempt dev ''FREQ?'' 64 100 k w) \<noteq> 0"
    and "attempt_rc dev ''FREQ?'' 64 (before_attempt dev ''FREQ?'' 64 100 n w) = 0"
  shows "budc_get_frequency_ghz L w dev out
           = (0, fdiv L (atof L (attempt_reply dev ''FREQ?'' 64 (before_attempt dev ''FREQ?'' 64 100 n w))) 1000000000,
              attempt_world dev ''FREQ?'' 64 (before_attempt dev ''FREQ?'' 64 100 n w))"
  using retry_success[where loop = "\<lambda>w i. budc_get_frequency_ghz_loop L w dev out i"
      and ok = "\<lambda>i w. attempt_rc dev ''FREQ?'' 64 w = 0" and i = 0 and c = MAX_RETRIES
      and step = "failed_attempt dev ''FREQ?'' 64 100" and s = w and n = n, OF freq_unfold] assms
  by (simp add: budc_get_frequency_ghz_def before_attempt_def MAX_RETRIES_def)

lemma freq_cases:
  "(\<exists>n<3. (\<forall>k<n. attempt_rc dev ''FREQ?'' 64 (before_attempt dev ''FREQ?'' 64 100 k w) \<noteq> 0)
       \<and> attempt_rc dev ''FREQ?'' 64 (before_attempt dev ''FREQ?'' 64 100 n w) = 0
       \<and> budc_get_frequency_ghz L w dev out
           = (0, fdiv L (atof L (attempt_reply dev ''FREQ?'' 64 (before_attempt dev ''FREQ?'' 64 100 n w))) 1000000000,
              attempt_world dev ''FREQ?'' 64 (before_attempt dev ''FREQ?'' 64 100 n w)))
   \<or> ((\<forall>k<3. attempt_rc dev ''FREQ?'' 64 (before_attempt dev ''FREQ?'' 64 100 k w) \<noteq> 0)
       \<and> budc_get_frequency_ghz L w dev out = (-1, out, before_attempt dev ''FREQ?'' 64 100 3 w))"
  using retry_cases[where loop = "\<lambda>w i. budc_get_frequency_ghz_loop L w dev out i"
      and ok = "\<lambda>i w. attempt_rc dev ''FREQ?'' 64 w = 0" and i = 0 and c = MAX_RETRIES
      and step = "failed_attempt dev ''FREQ?'' 64 100" and s = w, OF freq_unfold]
  by (simp add: budc_get_frequency_ghz_def before_attempt_def MAX_RETRIES_def)

lemma temp_exhaust:
  assumes "\<forall>k<5. \<not> temp_ok L dev k (before_attempt dev ''TEMP?'' 64 250 k w)"
  shows "budc_get_temperature_c L w dev out = (-1, out, before_attempt dev ''TEMP?'' 64 250 5 w)"
  using retry_exhaust[where loop = "\<lambda>w i. budc_get_temperature_c_loop L w dev out i"
      and ok = "\<lambda>i w. temp_ok L dev i w" and i = 0 and c = 5
      and step = "failed_attempt dev ''TEMP?'' 64 250" and s = w, OF temp_unfold] assms
  by (simp add: budc_get_temperature_c_def before_attempt_def)

lemma temp_success:
  assumes "n < 5"
    and "\<forall>k<n. \<not> temp_ok L dev k (before_attempt dev ''TEMP?'' 64 250 k w)"
    and "temp_ok L dev n (before_attempt dev ''TEMP?'' 64 250 n w)"
  shows "budc_get_temperature_c L w dev out
           = (0, temp_value L dev (before_attempt dev ''TEMP?'' 64 250 n w),
              attempt_world dev ''TEMP?'' 64 (before_attempt dev ''TEMP?'' 64 250 n w))"
  using retry_success[where loop = "\<lambda>w i. budc_get_temperature_c_loop L w dev out i"
      and ok = "\<lambda>i w. temp_ok L dev i w" and i = 0 and c = 5
      and step = "failed_attempt dev ''TEMP?'' 64 250" and s = w and n = n, OF temp_unfold] assms
  by (simp add: budc_get_temperature_c_def before_attempt_def)

lemma temp_cases:
  "(\<exists>n<5. (\<forall>k<n. \<not> temp_ok L dev k (before_attempt dev ''TEMP?'' 64 250 k w))
       \<and> temp_ok L dev n (before_attempt dev ''TEMP?'' 64 250 n w)
       \<and> budc_get_temperature_c L w dev out
           = (0, temp_value L dev (before_attempt dev ''TEMP?'' 64 250 n w),
              attempt_world dev ''TEMP?'' 64 (before_attempt dev ''TEMP?'' 64 250 n w)))
   \<or> ((\<forall>k<5. \<not> temp_ok L dev k (before_attempt dev ''TEMP?'' 64 250 k w))
       \<and> budc_get_temperature_c L w dev out = (-1, out, before_attempt dev ''TEMP?'' 64 250 5 w))"
  using retry_cases[where loop = "\<lambda>w i. budc_get_temperature_c_loop L w dev out i"
      and ok = "\<lambda>i w. temp_ok L dev i w" and i = 0 and c = 5
      and step = "failed_attempt dev ''TEMP?'' 64 250" and s = w, OF temp_unfold]
  by (simp add: budc_get_temperature_c_def before_attempt_def)

lemma idn_exhaust:
  assumes "\<forall>k<3. \<not> idn_ok dev len (idn_before_attempt dev len k (w, buffer))"
  shows "budc_get_identity w dev buffer len
           = (-1, snd (idn_before_attempt dev len 3 (w, buffer)), fst (idn_before_attempt dev len 3 (w, buffer)))"
  using retry_exhaust[where loop = "\<lambda>s i. budc_get_identity_loop (fst s) dev (snd s) len i"
      and ok = "\<lambda>i s. idn_ok dev len s" and i = 0 and c = MAX_RETRIES
      and step = "idn_failed_attempt dev len" and s = "(w, buffer)", OF idn_unfold] assms
  by (simp add: budc_get_identity_def idn_before_attempt_def MAX_RETRIES_def)

lemma idn_success:
  assumes "n < 3"
    and "\<forall>k<n. \<not> idn_ok dev len (idn_before_attempt dev len k (w, buffer))"
    and "idn_ok dev len (idn_before_attempt dev len n (w, buffer))"
  shows "budc_get_identity w dev buffer len
           = (0, snd (budc_send_raw_command (fst (idn_before_attempt dev len n (w, buffer))) dev ''*IDN?''
                        (snd (idn_before_attempt dev len n (w, buffer))) len))"
  using retry_success[where loop = "\<lambda>s i. budc_get_identity_loop (fst s) dev (snd s) len i"
      and ok = "\<lambda>i s. idn_ok dev len s" and i = 0 and c = MAX_RETRIES
      and step = "idn_failed_attempt dev len" and s = "(w, buffer)" and n = n, OF idn_unfold] assms
  by (simp add: budc_get_identity_def idn_before_attempt_def MAX_RETRIES_def)

lemma attempt_ok_connected: "attempt_rc dev command len w = 0 \<Longrightarrow> budc_is_connected dev"
  unfolding attempt_rc_def by (rule send_raw_ok_connected)

lemma writes_attempt_world:
  "budc_is_connected dev \<Longrightarrow>
   writes_issued (attempt_world dev command len w) = Suc (writes_issued w)"
  unfolding attempt_world_def by (rule writes_send_raw)

lemma temp_ok_connected: "temp_ok L dev i w \<Longrightarrow> budc_is_connected dev"
  unfolding temp_ok_def temp_parsed_def using attempt_ok_connected by blast

lemma idn_ok_connected: "idn_ok dev len s \<Longrightarrow> budc_is_connected dev"
  using send_raw_ok_connected[of "fst s" dev "''*IDN?''" "snd s" len]
  by (auto simp: idn_ok_def split: prod.splits)

lemma power_retry:
  "(n < 3 \<longrightarrow> (\<forall>k<n. attempt_rc dev ''PWR?'' 16 (before_attempt dev ''PWR?'' 16 100 k w) \<noteq> 0) \<longrightarrow>
       attempt_rc dev ''PWR?'' 16 (before_attempt dev ''PWR?'' 16 100 n w) = 0 \<longrightarrow>
       fst (budc_get_power_level w dev power_level) = 0
       \<and> writes_issued (snd (snd (budc_get_power_level w dev power_level))) = writes_issued w + Suc n)
   \<and> ((\<forall>k<3. attempt_rc dev ''PWR?'' 16 (before_attempt dev ''PWR?'' 16 100 k w) \<noteq> 0) \<longrightarrow>
       fst (budc_get_power_level w dev power_level) = -1
       \<and> snd (snd (budc_get_power_level w dev power_level)) = before_attempt dev ''PWR?'' 16 100 3 w
       \<and> (budc_is_connected dev \<longrightarrow>
            writes_issued (snd (snd (budc_get_power_level w dev power_level))) = writes_issued w + 3))"
proof (intro conjI impI)
  assume n: "n < 3" and f: "\<forall>k<n. attempt_rc dev ''PWR?'' 16 (before_attempt dev ''PWR?'' 16 100 k w) \<noteq> 0"
    and ok: "attempt_rc dev ''PWR?'' 16 (before_attempt dev ''PWR?'' 16 100 n w) = 0"
  note s = power_success[OF n f ok]
  have c: "budc_is_connected dev" using ok by (rule attempt_ok_connected)
  show "fst (budc_get_power_level w dev power_level) = 0" by (simp add: s)
  show "writes_issued (snd (snd (budc_get_power_level w dev power_level))) = writes_issued w + Suc n"
    by (simp add: s writes_attempt_world[OF c] writes_before_attempt[OF c])
next
  assume f: "\<forall>k<3. attempt_rc dev ''PWR?'' 16 (before_attempt dev ''PWR?'' 16 100 k w) \<noteq> 0"
  note e = power_exhaust[OF f]
  show "fst (budc_get_power_level w dev power_level) = -1" by (simp add: e)
  show "snd (snd (budc_get_power_level w dev power_level)) = before_attempt dev ''PWR?'' 16 100 3 w" by (simp add: e)
  assume c: "budc_is_connected dev"
  show "writes_issued (snd (snd (budc_get_power_level w dev power_level))) = writes_issued w + 3"
    by (simp add: e writes_before_attempt[OF c])
qed

lemma lock_retry:
  "(n < 3 \<longrightarrow> (\<forall>k<n. attempt_rc dev ''LOCK?'' 16 (before_attempt dev ''LOCK?'' 16 100 k w) \<noteq> 0) \<longrightarrow>
       attempt_rc dev ''LOCK?'' 16 (before_attempt dev ''LOCK?'' 16 100 n w) = 0 \<longrightarrow>
       fst (budc_get_lock_status w dev is_locked) = 0
       \<and> writes_issued (snd (snd (budc_get_lock_status w dev is_locked))) = writes_issued w + Suc n)
   \<and> ((\<forall>k<3. attempt_rc dev ''LOCK?'' 16 (before_attempt dev ''LOCK?'' 16 100 k w) \<noteq> 0) \<longrightarrow>
       fst (budc_get_lock_status w dev is_locked) = -1
       \<and> snd (snd (budc_get_lock_status w dev is_locked)) = before_attempt dev ''LOCK?'' 16 100 3 w
       \<and> (budc_is_connected dev \<longrightarrow>
            writes_issued (snd (snd (budc_get_lock_status w dev is_locked))) = writes_issued w + 3))"
proof (intro conjI impI)
  assume n: "n < 3" and f: "\<forall>k<n. attempt_rc dev ''LOCK?'' 16 (before_attempt dev ''LOCK?'' 16 100 k w) \<noteq> 0"
    and ok: "attempt_rc dev ''LOCK?'' 16 (before_attempt dev ''LOCK?'' 16 100 n w) = 0"
  note s = lock_success[OF n f ok]
  have c: "budc_is_connected dev" using ok by (rule attempt_ok_connected)
  show "fst (budc_get_lock_status w dev is_locked) = 0" by (simp add: s)
  show "writes_issued (snd (snd (budc_get_lock_status w dev is_locked))) = writes_issued w + Suc n"
    by (simp add: s writes_attempt_world[OF c] writes_before_attempt[OF c])
next
  assume f: "\<forall>k<3. attempt_rc dev ''LOCK?'' 16 (before_attempt dev ''LOCK?'' 16 100 k w) \<noteq> 0"
  note e = lock_exhaust[OF f]
  show "fst (budc_get_lock_status w dev is_locked) = -1" by (simp add: e)
  show "snd (snd (budc_get_lock_status w dev is_locked)) = before_attempt dev ''LOCK?'' 16 100 3 w" by (simp add: e)
  assume c: "budc_is_connected dev"
  show "writes_issued (snd (snd (budc_get_lock_status w dev is_locked))) = writes_issued w + 3"
    by (simp add: e writes_before_attempt[OF c])
qed

lemma freq_retry:
  "(n < 3 \<longrightarrow> (\<forall>k<n. attempt_rc dev ''FREQ?'' 64 (before_attempt dev ''FREQ?'' 64 100 k w) \<noteq> 0) \<longrightarrow>
       attempt_rc dev ''FREQ?'' 64 (before_attempt dev ''FREQ?'' 64 100 n w) = 0 \<longrightarrow>
       fst (budc_get_frequency_ghz L w dev freq_ghz) = 0
       \<and> writes_issued (snd (snd (budc_get_frequency_ghz L w dev freq_ghz))) = writes_issued w + Suc n)
   \<and> ((\<forall>k<3. attempt_rc dev ''FREQ?'' 64 (before_attempt dev ''FREQ?'' 64 100 k w) \<noteq> 0) \<longrightarrow>
       fst (budc_get_frequency_ghz L w dev freq_ghz) = -1
       \<and> snd (snd (budc_get_frequency_ghz L w dev freq_ghz)) = before_attempt dev ''FREQ?'' 64 100 3 w
       \<and> (budc_is_connected dev \<longrightarrow>
            writes_issued (snd (snd (budc_get_frequency_ghz L w dev freq_ghz))) = writes_issued w + 3))"
proof (intro conjI impI)
  assume n: "n < 3" and f: "\<forall>k<n. attempt_rc dev ''FREQ?'' 64 (before_attempt dev ''FREQ?'' 64 100 k w) \<noteq> 0"
    and ok: "attempt_rc dev ''FREQ?'' 64 (before_attempt dev ''FREQ?'' 64 100 n w) = 0"
  note s = freq_success[OF n f ok]
  have c: "budc_is_connected dev" using ok by (rule attempt_ok_connected)
  show "fst (budc_get_frequency_ghz L w dev freq_ghz) = 0" by (simp add: s)
  show "writes_issued (snd (snd (budc_get_frequency_ghz L w dev freq_ghz))) = writes_issued w + Suc n"
    by (simp add: s writes_attempt_world[OF c] writes_before_attempt[OF c])
next
  assume f: "\<forall>k<3. attempt_rc dev ''FREQ?'' 64 (before_attempt dev ''FREQ?'' 64 100 k w) \<noteq> 0"
  note e = freq_exhaust[OF f]
  show "fst (budc_get_frequency_ghz L w dev freq_ghz) = -1" by (simp add: e)
  show "snd (snd (budc_get_frequency_ghz L w dev freq_ghz)) = before_attempt dev ''FREQ?'' 64 100 3 w" by (simp add: e)
  assume c: "budc_is_connected dev"
  show "writes_issued (snd (snd (budc_get_frequency_ghz L w dev freq_ghz))) = writes_issued w + 3"
    by (simp add: e writes_before_attempt[OF c])
qed

lemma temp_retry:
  "(n < 5 \<longrightarrow> (\<forall>k<n. \<not> temp_ok L dev k (before_attempt dev ''TEMP?'' 64 250 k w)) \<longrightarrow>
       temp_ok L dev n (before_attempt dev ''TEMP?'' 64 250 n w) \<longrightarrow>
       fst (budc_get_temperature_c L w dev temp_c) = 0
       \<and> writes_issued (snd (snd (budc_get_temperature_c L w dev temp_c))) = writes_issued w + Suc n)
   \<and> ((\<forall>k<5. \<not> temp_ok L dev k (before_attempt dev ''TEMP?'' 64 250 k w)) \<longrightarrow>
       fst (budc_get_temperature_c L w dev temp_c) = -1
       \<and> snd (snd (budc_get_temperature_c L w dev temp_c)) = before_attempt dev ''TEMP?'' 64 250 5 w
       \<and> (budc_is_connected dev \<longrightarrow>
            writes_issued (snd (snd (budc_get_temperature_c L w dev temp_c))) = writes_issued w + 5))"
proof (intro conjI impI)
  assume n: "n < 5" and f: "\<forall>k<n. \<not> temp_ok L dev k (before_attempt dev ''TEMP?'' 64 250 k w)"
    and ok: "temp_ok L dev n (before_attempt dev ''TEMP?'' 64 250 n w)"
  note s = temp_success[OF n f ok]
  have c: "budc_is_connected dev" using ok by (rule temp_ok_connected)
  show "fst (budc_get_temperature_c L w dev temp_c) = 0" by (simp add: s)
  show "writes_issued (snd (snd (budc_get_temperature_c L w dev temp_c))) = writes_issued w + Suc n"
    by (simp add: s writes_attempt_world[OF c] writes_before_attempt[OF c])
next
  assume f: "\<forall>k<5. \<not> temp_ok L dev k (before_attempt dev ''TEMP?'' 64 250 k w)"
  note e = temp_exhaust[OF f]
  show "fst (budc_get_temperature_c L w dev temp_c) = -1" by (simp add: e)
  show "snd (snd (budc_get_temperature_c L w dev temp_c)) = before_attempt dev ''TEMP?'' 64 250 5 w" by (simp add: e)
  assume c: "budc_is_connected dev"
  show "writes_issued (snd (snd (budc_get_temperature_c L w dev temp_c))) = writes_issued w + 5"
    by (simp add: e writes_before_attempt[OF c])
qed

lemma idn_retry:
  "(n < 3 \<longrightarrow> (\<forall>k<n. \<not> idn_ok dev len (idn_before_attempt dev len k (w, buffer))) \<longrightarrow>
       idn_ok dev len (idn_before_attempt dev len n (w, buffer)) \<longrightarrow>
       fst (budc_get_identity w dev buffer len) = 0
       \<and> writes_issued (snd (snd (budc_get_identity w dev buffer len))) = writes_issued w + Suc n)
   \<and> ((\<forall>k<3. \<not> idn_ok dev len (idn_before_attempt dev len k (w, buffer))) \<longrightarrow>
       fst (budc_get_identity w dev buffer len) = -1
       \<and> snd (snd (budc_get_identity w dev buffer len)) = fst (idn_before_attempt dev len 3 (w, buffer))
       \<and> (budc_is_connected dev \<longrightarrow>
            writes_issued (snd (snd (budc_get_identity w dev buffer len))) = writes_issued w + 3))"
proof (intro conjI impI)
  assume n: "n < 3" and f: "\<forall>k<n. \<not> idn_ok dev len (idn_before_attempt dev len k (w, buffer))"
    and ok: "idn_ok dev len (idn_before_attempt dev len n (w, buffer))"
  note s = idn_success[OF n f ok]
  have c: "budc_is_connected dev" using ok by (rule idn_ok_connected)
  show "fst (budc_get_identity w dev buffer len) = 0" by (simp add: s)
  show "writes_issued (snd (snd (budc_get_identity w dev buffer len))) = writes_issued w + Suc n"
    using writes_idn_before_attempt[OF c, of len n "(w, buffer)"]
    by (simp add: s writes_send_raw[OF c])
next
  assume f: "\<forall>k<3. \<not> idn_ok dev len (idn_before_attempt dev len k (w, buffer))"
  note e = idn_exhaust[OF f]
  show "fst (budc_get_identity w dev buffer len) = -1" by (simp add: e)
  show "snd (snd (budc_get_identity w dev buffer len)) = fst (idn_before_attempt dev len 3 (w, buffer))" by (simp add: e)
  assume c: "budc_is_connected dev"
  show "writes_issued (snd (snd (budc_get_identity w dev buffer len))) = writes_issued w + 3"
    using writes_idn_before_attempt[OF c, of len 3 "(w, buffer)"] by (simp add: e)
qed

lemma before_attempt_nums:
  "before_attempt dev command len ms 0 w = w"
  "before_attempt dev command len ms 1 w = failed_attempt dev command len ms w"
  "before_attempt dev command len ms (Suc 0) w = failed_attempt dev command len ms w"
  "before_attempt dev command len ms 2 w
     = failed_attempt dev command len ms (failed_attempt dev command len ms w)"
  "before_attempt dev command len ms 3 w
     = failed_attempt dev command len ms (failed_attempt dev command len ms
         (failed_attempt dev command len ms w))"
  "before_attempt dev command len ms 4 w
     = failed_attempt dev command len ms (failed_attempt dev command len ms
         (failed_attempt dev command len ms (failed_attempt dev command len ms w)))"
  by (simp_all add: before_attempt_def numeral_eq_Suc)

lemmas retry_run_defs = attempt_rc_def attempt_reply_def attempt_world_def failed_attempt_def
  before_attempt_nums

lemma all_less_2: "(\<forall>k<2. P k) \<longleftrightarrow> P 0 \<and> P (1::nat)"
  by (auto simp: numeral_eq_Suc less_Suc_eq)

lemma all_less_3: "(\<forall>k<3. P k) \<longleftrightarrow> P 0 \<and> P 1 \<and> P (2::nat)"
  by (auto simp: numeral_eq_Suc less_Suc_eq)

lemma all_less_4: "(\<forall>k<4. P k) \<longleftrightarrow> P 0 \<and> P 1 \<and> P 2 \<and> P (3::nat)"
  by (auto simp: numeral_eq_Suc less_Suc_eq)

lemma all_less_5: "(\<forall>k<5. P k) \<longleftrightarrow> P 0 \<and> P 1 \<and> P 2 \<and> P 3 \<and> P (4::nat)"
  by (auto simp: numeral_eq_Suc less_Suc_eq)

text \<open>
  C2. Every retrying getter (identity, frequency, lock and power with a ceiling of 3
  attempts, temperature with a ceiling of 5): when the attempts before attempt \<open>n\<close>
  (counted from 0, below the ceiling) do not return and attempt \<open>n\<close> is accepted, the
  getter returns success, having issued \<open>n + 1\<close> writes; when no attempt up to the ceiling
  is accepted, it returns failure in the world left by exactly that many attempts, each
  followed by its delay, which on a connected handle is exactly 3 (or 5) writes.
\<close>

theorem getters_retry_ceiling:
  "((n < 3 \<longrightarrow> (\<forall>k<n. \<not> idn_ok dev len (idn_before_attempt dev len k (w, buffer))) \<longrightarrow>
       idn_ok dev len (idn_before_attempt dev len n (w, buffer)) \<longrightarrow>
       fst (budc_get_identity w dev buffer len) = 0
       \<and> writes_issued (snd (snd (budc_get_identity w dev buffer len))) = writes_issued w + Suc n)
   \<and> ((\<forall>k<3. \<not> idn_ok dev len (idn_before_attempt dev len k (w, buffer))) \<longrightarrow>
       fst (budc_get_identity w dev buffer len) = -1
       \<and> snd (snd (budc_get_identity w dev buffer len)) = fst (idn_before_attempt dev len 3 (w, buffer))
       \<and> (budc_is_connected dev \<longrightarrow>
            writes_issued (snd (snd (budc_get_identity w dev buffer len))) = writes_issued w + 3)))
   \<and> ((n < 3 \<longrightarrow> (\<forall>k<n. attempt_rc dev ''FREQ?'' 64 (before_attempt dev ''FREQ?'' 64 100 k w) \<noteq> 0) \<longrightarrow>
       attempt_rc dev ''FREQ?'' 64 (before_attempt dev ''FREQ?'' 64 100 n w) = 0 \<longrightarrow>
       fst (budc_get_frequency_ghz L w dev freq_ghz) = 0
       \<and> writes_issued (snd (snd (budc_get_frequency_ghz L w dev freq_ghz))) = writes_issued w + Suc n)
   \<and> ((\<forall>k<3. attempt_rc dev ''FREQ?'' 64 (before_attempt dev ''FREQ?'' 64 100 k w) \<noteq> 0) \<longrightarrow>
       fst (budc_get_frequency_ghz L w dev freq_ghz) = -1
       \<and> snd (snd (budc_get_frequency_ghz L w dev freq_ghz)) = before_attempt dev ''FREQ?'' 64 100 3 w
       \<and> (budc_is_connected dev \<longrightarrow>
            writes_issued (snd (snd (budc_get_frequency_ghz L w dev freq_ghz))) = writes_issued w + 3)))
   \<and> ((n < 3 \<longrightarrow> (\<forall>k<n. attempt_rc dev ''LOCK?'' 16 (before_attempt dev ''LOCK?'' 16 100 k w) \<noteq> 0) \<longrightarrow>
       attempt_rc dev ''LOCK?'' 16 (before_attempt dev ''LOCK?'' 16 100 n w) = 0 \<longrightarrow>
       fst (budc_get_lock_status w dev is_locked) = 0
       \<and> writes_issued (snd (snd (budc_get_lock_status w dev is_locked))) = writes_issued w + Suc n)
   \<and> ((\<forall>k<3. attempt_rc dev ''LOCK?'' 16 (before_attempt dev ''LOCK?'' 16 100 k w) \<noteq> 0) \<longrightarrow>
       fst (budc_get_lock_status w dev is_locked) = -1
       \<and> snd (snd (budc_get_lock_status w dev is_locked)) = before_attempt dev ''LOCK?'' 16 100 3 w
       \<and> (budc_is_connected dev \<longrightarrow>
            writes_issued (snd (snd (budc_get_lock_status w dev is_locked))) = writes_issued w + 3)))
   \<and> ((n < 3 \<longrightarrow> (\<forall>k<n. attempt_rc dev ''PWR?'' 16 (before_attempt dev ''PWR?'' 16 100 k w) \<noteq> 0) \<longrightarrow>
       attempt_rc dev ''PWR?'' 16 (before_attempt dev ''PWR?'' 16 100 n w) = 0 \<longrightarrow>
       fst (budc_get_power_level w dev power_level) = 0
       \<and> writes_issued (snd (snd (budc_get_power_level w dev power_level))) = writes_issued w + Suc n)
   \<and> ((\<forall>k<3. attempt_rc dev ''PWR?'' 16 (before_attempt dev ''PWR?'' 16 100 k w) \<noteq> 0) \<longrightarrow>
       fst (budc_get_power_level w dev power_level) = -1
       \<and> snd (snd (budc_get_power_level w dev power_level)) = before_attempt dev ''PWR?'' 16 100 3 w
       \<and> (budc_is_connected dev \<longrightarrow>
            writes_issued (snd (snd (budc_get_power_level w dev power_level))) = writes_issued w + 3)))
   \<and> ((n < 5 \<longrightarrow> (\<forall>k<n. \<not> temp_ok L dev k (before_attempt dev ''TEMP?'' 64 250 k w)) \<longrightarrow>
       temp_ok L dev n (before_attempt dev ''TEMP?'' 64 250 n w) \<longrightarrow>
       fst (budc_get_temperature_c L w dev temp_c) = 0
       \<and> writes_issued (snd (snd (budc_get_temperature_c L w dev temp_c))) = writes_issued w + Suc n)
   \<and> ((\<forall>k<5. \<not> temp_ok L dev k (before_attempt dev ''TEMP?'' 64 250 k w)) \<longrightarrow>
       fst (budc_get_temperature_c L w dev temp_c) = -1
       \<and> snd (snd (budc_get_temperature_c L w dev temp_c)) = before_attempt dev ''TEMP?'' 64 250 5 w
       \<and> (budc_is_connected dev \<longrightarrow>
            writes_issued (snd (snd (budc_get_temperature_c L w dev temp_c))) = writes_issued w + 5)))"
  by (rule conjI[OF idn_retry conjI[OF freq_retry conjI[OF lock_retry
        conjI[OF power_retry temp_retry]]]])

text \<open>
  Concrete runs: an identity read at the first attempt; a frequency read at the third
  attempt after a write error and a read timeout; a lock query that fails three times
  (a blank reply, a read error, a silent line); a power level read at the second attempt
  after a short write; and a temperature query on a silent line, given up after five
  writes.
\<close>

theorem getters_retry_ceiling_witness:
  "idn_ok dev0 32 (idn_before_attempt dev0 32 0
       (world0 [WrBytes 7] [RdBytes (''PENTHERTZ,BUDC,1,1.0'' @ [CHR 0x0D, CHR 0x0A])], Some []))
   \<and> fst (budc_get_identity
         (world0 [WrBytes 7] [RdBytes (''PENTHERTZ,BUDC,1,1.0'' @ [CHR 0x0D, CHR 0x0A])])
         dev0 (Some []) 32) = 0
   \<and> attempt_rc dev0 ''FREQ?'' 64 (before_attempt dev0 ''FREQ?'' 64 100 0
         (world0 [WrErr SP_ERR_FAIL, WrBytes 7, WrBytes 7] [RdBytes [], RdBytes ''5500000000''])) \<noteq> 0
   \<and> attempt_rc dev0 ''FREQ?'' 64 (before_attempt dev0 ''FREQ?'' 64 100 1
         (world0 [WrErr SP_ERR_FAIL, WrBytes 7, WrBytes 7] [RdBytes [], RdBytes ''5500000000''])) \<noteq> 0
   \<and> attempt_rc dev0 ''FREQ?'' 64 (before_attempt dev0 ''FREQ?'' 64 100 2
         (world0 [WrErr SP_ERR_FAIL, WrBytes 7, WrBytes 7] [RdBytes [], RdBytes ''5500000000''])) = 0
   \<and> fst (budc_get_frequency_ghz L0
         (world0 [WrErr SP_ERR_FAIL, WrBytes 7, WrBytes 7] [RdBytes [], RdBytes ''5500000000''])
         dev0 NaN) = 0
   \<and> writes_issued (snd (snd (budc_get_frequency_ghz L0
         (world0 [WrErr SP_ERR_FAIL, WrBytes 7, WrBytes 7] [RdBytes [], RdBytes ''5500000000''])
         dev0 NaN))) = 3
   \<and> fst (budc_get_lock_status
         (world0 [WrBytes 7, WrBytes 7, WrBytes 7] [RdBytes [CHR 0x20, CHR 0x20], RdErr SP_ERR_FAIL])
         dev0 False) = -1
   \<and> writes_issued (snd (snd (budc_get_lock_status
         (world0 [WrBytes 7, WrBytes 7, WrBytes 7] [RdBytes [CHR 0x20, CHR 0x20], RdErr SP_ERR_FAIL])
         dev0 False))) = 3
   \<and> fst (budc_get_power_level
         (world0 [WrBytes 0, WrBytes 6] [RdBytes (''10'' @ [CHR 0x0D, CHR 0x0A])]) dev0 0) = 0
   \<and> writes_issued (snd (snd (budc_get_power_level
         (world0 [WrBytes 0, WrBytes 6] [RdBytes (''10'' @ [CHR 0x0D, CHR 0x0A])]) dev0 0))) = 2
   \<and> fst (budc_get_temperature_c L0 (world0 [] []) dev0 NaN) = -1
   \<and> writes_issued (snd (snd (budc_get_temperature_c L0 (world0 [] []) dev0 NaN))) = 5"
proof -
  let ?wi = "world0 [WrBytes 7] [RdBytes (''PENTHERTZ,BUDC,1,1.0'' @ [CHR 0x0D, CHR 0x0A])]"
  let ?wf = "world0 [WrErr SP_ERR_FAIL, WrBytes 7, WrBytes 7] [RdBytes [], RdBytes ''5500000000'']"
  let ?wl = "world0 [WrBytes 7, WrBytes 7, WrBytes 7] [RdBytes [CHR 0x20, CHR 0x20], RdErr SP_ERR_FAIL]"
  let ?wp = "world0 [WrBytes 0, WrBytes 6] [RdBytes (''10'' @ [CHR 0x0D, CHR 0x0A])]"
  let ?wt = "world0 [] []"
  have c: "budc_is_connected dev0" by (simp add: run_defs)
  have z: "writes_issued ?wf = 0 \<and> writes_issued ?wl = 0 \<and> writes_issued ?wp = 0
           \<and> writes_issued ?wt = 0"
    by (simp add: writes_issued_def world0_def)
  have i0: "idn_ok dev0 32 (idn_before_attempt dev0 32 0 (?wi, Some []))"
    by (simp add: idn_ok_def idn_before_attempt_def run_defs)
  have f0: "attempt_rc dev0 ''FREQ?'' 64 (before_attempt dev0 ''FREQ?'' 64 100 0 ?wf) \<noteq> 0"
    by (simp add: retry_run_defs run_defs)
  have f1: "attempt_rc dev0 ''FREQ?'' 64 (before_attempt dev0 ''FREQ?'' 64 100 1 ?wf) \<noteq> 0"
    by (simp add: retry_run_defs run_defs)
  have f2: "attempt_rc dev0 ''FREQ?'' 64 (before_attempt dev0 ''FREQ?'' 64 100 2 ?wf) = 0"
    by (simp add: retry_run_defs run_defs)
  have fa: "\<forall>k<2. attempt_rc dev0 ''FREQ?'' 64 (before_attempt dev0 ''FREQ?'' 64 100 k ?wf) \<noteq> 0"
    using f0 f1 by (simp only: all_less_2 simp_thms)
  have l0: "attempt_rc dev0 ''LOCK?'' 16 (before_attempt dev0 ''LOCK?'' 16 100 0 ?wl) \<noteq> 0"
    by (simp add: retry_run_defs run_defs)
  have l1: "attempt_rc dev0 ''LOCK?'' 16 (before_attempt dev0 ''LOCK?'' 16 100 1 ?wl) \<noteq> 0"
    by (simp add: retry_run_defs run_defs)
  have l2: "attempt_rc dev0 ''LOCK?'' 16 (before_attempt dev0 ''LOCK?'' 16 100 2 ?wl) \<noteq> 0"
    by (simp add: retry_run_defs run_defs)
  have la: "\<forall>k<3. attempt_rc dev0 ''LOCK?'' 16 (before_attempt dev0 ''LOCK?'' 16 100 k ?wl) \<noteq> 0"
    using l0 l1 l2 by (simp only: all_less_3 simp_thms)
  have p0: "attempt_rc dev0 ''PWR?'' 16 (before_attempt dev0 ''PWR?'' 16 100 0 ?wp) \<noteq> 0"
    by (simp add: retry_run_defs run_defs)
  have p1: "attempt_rc dev0 ''PWR?'' 16 (before_attempt dev0 ''PWR?'' 16 100 1 ?wp) = 0"
    by (simp add: retry_run_defs run_defs)
  have pa: "\<forall>k<1. attempt_rc dev0 ''PWR?'' 16 (before_attempt dev0 ''PWR?'' 16 100 k ?wp) \<noteq> 0"
    using p0 by simp
  have t: "\<not> temp_parsed dev0 (before_attempt dev0 ''TEMP?'' 64 250 0 ?wt)
      \<and> \<not> temp_parsed dev0 (before_attempt dev0 ''TEMP?'' 64 250 1 ?wt)
      \<and> \<not> temp_parsed dev0 (before_attempt dev0 ''TEMP?'' 64 250 2 ?wt)
      \<and> \<not> temp_parsed dev0 (before_attempt dev0 ''TEMP?'' 64 250 3 ?wt)
      \<and> \<not> temp_parsed dev0 (before_attempt dev0 ''TEMP?'' 64 250 4 ?wt)"
    by (simp add: temp_parsed_def retry_run_defs run_defs)
  have ta: "\<forall>k<5. \<not> temp_ok L0 dev0 k (before_attempt dev0 ''TEMP?'' 64 250 k ?wt)"
    using t by (simp only: all_less_5 temp_ok_def simp_thms)
  note Ti = getters_retry_ceiling[of 0 dev0 32 ?wi "Some []" L0 NaN False 0 NaN]
  note Tf = getters_retry_ceiling[of 2 dev0 32 ?wf "Some []" L0 NaN False 0 NaN]
  note Tl = getters_retry_ceiling[of 0 dev0 32 ?wl "Some []" L0 NaN False 0 NaN]
  note Tp = getters_retry_ceiling[of 1 dev0 32 ?wp "Some []" L0 NaN False 0 NaN]
  note Tt = getters_retry_ceiling[of 0 dev0 32 ?wt "Some []" L0 NaN False 0 NaN]
  have I: "fst (budc_get_identity ?wi dev0 (Some []) 32) = 0"
    using Ti[THEN conjunct1, THEN conjunct1] i0 by simp
  have F: "fst (budc_get_frequency_ghz L0 ?wf dev0 NaN) = 0
      \<and> writes_issued (snd (snd (budc_get_frequency_ghz L0 ?wf dev0 NaN)))
          = writes_issued ?wf + Suc 2"
    using Tf[THEN conjunct2, THEN conjunct1, THEN conjunct1] fa f2 by simp
  have Lk: "fst (budc_get_lock_status ?wl dev0 False) = -1
      \<and> writes_issued (snd (snd (budc_get_lock_status ?wl dev0 False))) = writes_issued ?wl + 3"
    using Tl[THEN conjunct2, THEN conjunct2, THEN conjunct1, THEN conjunct2] la c by blast
  have P: "fst (budc_get_power_level ?wp dev0 0) = 0
      \<and> writes_issued (snd (snd (budc_get_power_level ?wp dev0 0))) = writes_issued ?wp + Suc 1"
    using Tp[THEN conjunct2, THEN conjunct2, THEN conjunct2, THEN conjunct1, THEN conjunct1] pa p1
    by simp
  have T: "fst (budc_get_temperature_c L0 ?wt dev0 NaN) = -1
      \<and> writes_issued (snd (snd (budc_get_temperature_c L0 ?wt dev0 NaN))) = writes_issued ?wt + 5"
    using Tt[THEN conjunct2, THEN conjunct2, THEN conjunct2, THEN conjunct2, THEN conjunct2] ta c
    by blast
  show ?thesis using i0 f0 f1 f2 I F Lk P T z by simp
qed

section \<open>Output parameters\<close>

lemma full_command_nonempty: "0 < length (full_command command)"
  by (simp add: full_command_def COMMAND_TERMINATOR_def)

lemma silent_send_raw:
  assumes "wr_script w = []"
  shows "fst (budc_send_raw_command w dev command response len) = -1
         \<and> wr_script (snd (snd (budc_send_raw_command w dev command response len))) = []"
  using assms full_command_nonempty[of command]
  by (simp add: budc_send_raw_command_def sp_flush_def sp_blocking_write_def Let_def)

lemma silent_before_attempt:
  "wr_script w = [] \<Longrightarrow> wr_script (before_attempt dev command len ms k w) = []"
  by (induction k)
     (simp_all add: before_attempt_def failed_attempt_def attempt_world_def scpi_delay_def
        silent_send_raw)

lemma silent_attempt_rc:
  "wr_script w = [] \<Longrightarrow> attempt_rc dev command len (before_attempt dev command len ms k w) = -1"
  by (simp add: attempt_rc_def silent_send_raw silent_before_attempt)

lemma silent_temp_ok:
  "wr_script w = [] \<Longrightarrow> \<not> temp_ok L dev i (before_attempt dev ''TEMP?'' 64 250 k w)"
  by (simp add: temp_ok_def temp_parsed_def silent_attempt_rc)

text \<open>
  C9. Each numeric getter (frequency, lock status, temperature, power level) stores
  through its output pointer only when it returns success: whenever it returns failure,
  the caller's variable holds the value it held before the call.
\<close>

theorem getters_output_unchanged_on_failure:
  "(fst (budc_get_frequency_ghz L w dev freq_ghz) \<noteq> 0 \<longrightarrow>
      fst (snd (budc_get_frequency_ghz L w dev freq_ghz)) = freq_ghz)
   \<and> (fst (budc_get_lock_status w dev is_locked) \<noteq> 0 \<longrightarrow>
      fst (snd (budc_get_lock_status w dev is_locked)) = is_locked)
   \<and> (fst (budc_get_temperature_c L w dev temp_c) \<noteq> 0 \<longrightarrow>
      fst (snd (budc_get_temperature_c L w dev temp_c)) = temp_c)
   \<and> (fst (budc_get_power_level w dev power_level) \<noteq> 0 \<longrightarrow>
      fst (snd (budc_get_power_level w dev power_level)) = power_level)"
proof (intro conjI impI)
  assume "fst (budc_get_frequency_ghz L w dev freq_ghz) \<noteq> 0"
  then show "fst (snd (budc_get_frequency_ghz L w dev freq_ghz)) = freq_ghz"
    using freq_cases[of dev w L freq_ghz] by auto
next
  assume "fst (budc_get_lock_status w dev is_locked) \<noteq> 0"
  then show "fst (snd (budc_get_lock_status w dev is_locked)) = is_locked"
    using lock_cases[of dev w is_locked] by auto
next
  assume "fst (budc_get_temperature_c L w dev temp_c) \<noteq> 0"
  then show "fst (snd (budc_get_temperature_c L w dev temp_c)) = temp_c"
    using temp_cases[of L dev w temp_c] by auto
next
  assume "fst (budc_get_power_level w dev power_level) \<noteq> 0"
  then show "fst (snd (budc_get_power_level w dev power_level)) = power_level"
    using power_cases[of dev w power_level] by auto
qed

text \<open>On a silent line all four getters fail and leave the caller's value alone.\<close>

theorem getters_output_unchanged_on_failure_witness:
  "fst (budc_get_frequency_ghz L0 (world0 [] []) dev0 (Finite 7)) = -1
   \<and> fst (snd (budc_get_frequency_ghz L0 (world0 [] []) dev0 (Finite 7))) = Finite 7
   \<and> fst (budc_get_lock_status (world0 [] []) dev0 True) = -1
   \<and> fst (snd (budc_get_lock_status (world0 [] []) dev0 True)) = True
   \<and> fst (budc_get_temperature_c L0 (world0 [] []) dev0 (Finite 21)) = -1
   \<and> fst (snd (budc_get_temperature_c L0 (world0 [] []) dev0 (Finite 21))) = Finite 21
   \<and> fst (budc_get_power_level (world0 [] []) dev0 42) = -1
   \<and> fst (snd (budc_get_power_level (world0 [] []) dev0 42)) = 42"
proof -
  have s: "wr_script (world0 [] []) = []" by (simp add: world0_def)
  have f: "fst (budc_get_frequency_ghz L0 (world0 [] []) dev0 (Finite 7)) = -1"
    by (simp add: freq_exhaust silent_attempt_rc[OF s])
  have l: "fst (budc_get_lock_status (world0 [] []) dev0 True) = -1"
    by (simp add: lock_exhaust silent_attempt_rc[OF s])
  have t: "fst (budc_get_temperature_c L0 (world0 [] []) dev0 (Finite 21)) = -1"
    by (simp add: temp_exhaust silent_temp_ok[OF s])
  have p: "fst (budc_get_power_level (world0 [] []) dev0 42) = -1"
    by (simp add: power_exhaust silent_attempt_rc[OF s])
  note T = getters_output_unchanged_on_failure[of L0 "world0 [] []" dev0 "Finite 7" True
      "Finite 21" 42]
  show ?thesis using T f l t p by simp
qed

section \<open>The temperature getter\<close>

lemma retry_skip:
  fixes loop :: "'s \<Rightarrow> nat \<Rightarrow> 'r"
  assumes unfold: "\<And>s i. loop s i =
      (if i < c then (if ok i s then ret i s else loop (step s) (Suc i)) else done s)"
    and "i + m \<le> c"
    and "\<forall>k < m. \<not> ok (i + k) ((step ^^ k) s)"
  shows "loop s i = loop ((step ^^ m) s) (i + m)"
  using assms(2-)
proof (induction m arbitrary: i s)
  case 0
  show ?case by simp
next
  case (Suc m)
  have "\<not> ok i s" using Suc.prems(2) by (auto dest: spec[of _ 0])
  then have "loop s i = loop (step s) (Suc i)" using unfold[of s i] Suc.prems(1) by simp
  also have "\<dots> = loop ((step ^^ m) (step s)) (Suc i + m)"
  proof (rule Suc.IH)
    show "Suc i + m \<le> c" using Suc.prems(1) by simp
    show "\<forall>k<m. \<not> ok (Suc i + k) ((step ^^ k) (step s))"
    proof (intro allI impI)
      fix k assume "k < m"
      then have "\<not> ok (i + Suc k) ((step ^^ Suc k) s)" using Suc.prems(2) by blast
      then show "\<not> ok (Suc i + k) ((step ^^ k) (step s))" by (simp add: funpow_swap1)
    qed
  qed
  finally show ?case by (simp add: funpow_swap1)
qed

lemma temp_skip:
  assumes "m \<le> 5"
    and "\<forall>k<m. \<not> temp_ok L dev k (before_attempt dev ''TEMP?'' 64 250 k w)"
  shows "budc_get_temperature_c L w dev out
           = budc_get_temperature_c_loop L (before_attempt dev ''TEMP?'' 64 250 m w) dev out m"
  using retry_skip[where loop = "\<lambda>w i. budc_get_temperature_c_loop L w dev out i"
      and ok = "\<lambda>i w. temp_ok L dev i w" and i = 0 and c = 5 and m = m
      and step = "failed_attempt dev ''TEMP?'' 64 250" and s = w, OF temp_unfold] assms
  by (simp add: budc_get_temperature_c_def before_attempt_def)

lemma in_range_finite:
  "fge v (-50) \<Longrightarrow> fle v 150 \<Longrightarrow> \<exists>x. v = Finite x \<and> -50 \<le> x \<and> x \<le> 150"
  by (cases v) simp_all

lemma temp_success_range:
  assumes "fst (budc_get_temperature_c L w dev temp_c) = 0"
  shows "\<exists>x. fst (snd (budc_get_temperature_c L w dev temp_c)) = Finite x \<and> -50 \<le> x \<and> x \<le> 150"
proof -
  from temp_cases[of L dev w temp_c] assms obtain n where
    n: "temp_ok L dev n (before_attempt dev ''TEMP?'' 64 250 n w)"
    and g: "budc_get_temperature_c L w dev temp_c
           = (0, temp_value L dev (before_attempt dev ''TEMP?'' 64 250 n w),
              attempt_world dev ''TEMP?'' 64 (before_attempt dev ''TEMP?'' 64 250 n w))"
    by auto
  from n have "fge (temp_value L dev (before_attempt dev ''TEMP?'' 64 250 n w)) (-50)"
    and "fle (temp_value L dev (before_attempt dev ''TEMP?'' 64 250 n w)) 150"
    by (simp_all add: temp_ok_def)
  then show ?thesis using g in_range_finite by simp
qed

lemma temp_zero_only_last:
  assumes "fst (budc_get_temperature_c L w dev temp_c) = 0"
    and "fst (snd (budc_get_temperature_c L w dev temp_c)) = Finite 0"
  shows "snd (snd (budc_get_temperature_c L w dev temp_c))
           = attempt_world dev ''TEMP?'' 64 (before_attempt dev ''TEMP?'' 64 250 4 w)"
proof -
  from temp_cases[of L dev w temp_c] assms(1) obtain n where
    n: "temp_ok L dev n (before_attempt dev ''TEMP?'' 64 250 n w)"
    and g: "budc_get_temperature_c L w dev temp_c
           = (0, temp_value L dev (before_attempt dev ''TEMP?'' 64 250 n w),
              attempt_world dev ''TEMP?'' 64 (before_attempt dev ''TEMP?'' 64 250 n w))"
    by auto
  have "temp_value L dev (before_attempt dev ''TEMP?'' 64 250 n w) = Finite 0"
    using g assms(2) by simp
  with n have "n = 4" by (simp add: temp_ok_def)
  with g show ?thesis by simp
qed

lemma temp_rejected_goes_on:
  assumes "n < 5"
    and "\<forall>k<n. \<not> temp_ok L dev k (before_attempt dev ''TEMP?'' 64 250 k w)"
    and "\<not> temp_ok L dev n (before_attempt dev ''TEMP?'' 64 250 n w)"
  shows "budc_get_temperature_c L w dev temp_c
           = budc_get_temperature_c_loop L (before_attempt dev ''TEMP?'' 64 250 (Suc n) w) dev
               temp_c (Suc n)"
proof (rule temp_skip)
  show "Suc n \<le> 5" using assms(1) by simp
  show "\<forall>k<Suc n. \<not> temp_ok L dev k (before_attempt dev ''TEMP?'' 64 250 k w)"
    using assms(2,3) by (simp add: All_less_Suc)
qed


lemma temp_loop_past_ceiling: "budc_get_temperature_c_loop L w dev temp_c 5 = (-1, temp_c, w)"
  by (simp add: budc_get_temperature_c_loop.simps[of L w])

text \<open>
  C1. The temperature getter returns only values in the closed range from -50 to 150. A
  value parsed at attempt \<open>n\<close> (counted from 0; the attempts before it not having
  returned) is returned as success when it lies in that range and is not zero, or is zero
  and \<open>n\<close> is 4, the fifth and last attempt; otherwise the attempt is rejected and the loop
  goes on with the next attempt, which after the fifth is the failure return. So a zero
  that is returned was read by the fifth attempt.
\<close>

theorem temperature_acceptance:
  "(fst (budc_get_temperature_c L w dev temp_c) = 0 \<longrightarrow>
      (\<exists>x. fst (snd (budc_get_temperature_c L w dev temp_c)) = Finite x \<and> -50 \<le> x \<and> x \<le> 150))
   \<and> (fst (budc_get_temperature_c L w dev temp_c) = 0 \<longrightarrow>
      fst (snd (budc_get_temperature_c L w dev temp_c)) = Finite 0 \<longrightarrow>
      snd (snd (budc_get_temperature_c L w dev temp_c))
        = attempt_world dev ''TEMP?'' 64 (before_attempt dev ''TEMP?'' 64 250 4 w))
   \<and> (n < 5 \<longrightarrow> (\<forall>k<n. \<not> temp_ok L dev k (before_attempt dev ''TEMP?'' 64 250 k w)) \<longrightarrow>
      temp_parsed dev (before_attempt dev ''TEMP?'' 64 250 n w) \<longrightarrow>
      temp_value L dev (before_attempt dev ''TEMP?'' 64 250 n w) = Finite x \<longrightarrow>
      (if -50 \<le> x \<and> x \<le> 150 \<and> (x \<noteq> 0 \<or> n = 4)
       then budc_get_temperature_c L w dev temp_c
              = (0, Finite x, attempt_world dev ''TEMP?'' 64 (before_attempt dev ''TEMP?'' 64 250 n w))
       else budc_get_temperature_c L w dev temp_c
              = budc_get_temperature_c_loop L (before_attempt dev ''TEMP?'' 64 250 (Suc n) w) dev temp_c (Suc n)))
   \<and> budc_get_temperature_c_loop L w' dev temp_c 5 = (-1, temp_c, w')"
proof (intro conjI impI)
  assume "fst (budc_get_temperature_c L w dev temp_c) = 0"
  then show "\<exists>x. fst (snd (budc_get_temperature_c L w dev temp_c)) = Finite x \<and> -50 \<le> x \<and> x \<le> 150"
    by (rule temp_success_range)
next
  assume "fst (budc_get_temperature_c L w dev temp_c) = 0" "fst (snd (budc_get_temperature_c L w dev temp_c)) = Finite 0"
  then show "snd (snd (budc_get_temperature_c L w dev temp_c))
        = attempt_world dev ''TEMP?'' 64 (before_attempt dev ''TEMP?'' 64 250 4 w)"
    by (rule temp_zero_only_last)
next
  assume n: "n < 5" and f: "\<forall>k<n. \<not> temp_ok L dev k (before_attempt dev ''TEMP?'' 64 250 k w)"
    and p: "temp_parsed dev (before_attempt dev ''TEMP?'' 64 250 n w)"
    and v: "temp_value L dev (before_attempt dev ''TEMP?'' 64 250 n w) = Finite x"
  show "if -50 \<le> x \<and> x \<le> 150 \<and> (x \<noteq> 0 \<or> n = 4)
       then budc_get_temperature_c L w dev temp_c
              = (0, Finite x, attempt_world dev ''TEMP?'' 64 (before_attempt dev ''TEMP?'' 64 250 n w))
       else budc_get_temperature_c L w dev temp_c
              = budc_get_temperature_c_loop L (before_attempt dev ''TEMP?'' 64 250 (Suc n) w) dev temp_c (Suc n)"
  proof (cases "-50 \<le> x \<and> x \<le> 150 \<and> (x \<noteq> 0 \<or> n = 4)")
    case True
    then have "temp_ok L dev n (before_attempt dev ''TEMP?'' 64 250 n w)" using p v by (simp add: temp_ok_def)
    from temp_success[OF n f this, of temp_c] v
    have "budc_get_temperature_c L w dev temp_c
            = (0, Finite x, attempt_world dev ''TEMP?'' 64 (before_attempt dev ''TEMP?'' 64 250 n w))"
      by simp
    then show ?thesis by (subst if_P[OF True])
  next
    case False
    then have "\<not> temp_ok L dev n (before_attempt dev ''TEMP?'' 64 250 n w)" using v by (auto simp: temp_ok_def)
    from temp_rejected_goes_on[OF n f this, of temp_c] show ?thesis
      by (subst if_not_P[OF False])
  qed
next
  show "budc_get_temperature_c_loop L w' dev temp_c 5 = (-1, temp_c, w')"
    by (rule temp_loop_past_ceiling)
qed

lemmas temp_run_defs = temp_parsed_def temp_value_def num_start_def isdigit_def L0_def

text \<open>
  Concrete runs: a sensor that answers \<^verbatim>\<open>0.0\<close> five times has its zero returned by the
  fifth attempt, after five writes; a zero followed by \<^verbatim>\<open>T=25.5\<close> is rejected at the first
  attempt and 25.5 is returned by the second; a reading of 151 is rejected.
\<close>

theorem temperature_acceptance_witness:
  "temp_parsed dev0 (before_attempt dev0 ''TEMP?'' 64 250 4
      (world0 [WrBytes 7, WrBytes 7, WrBytes 7, WrBytes 7, WrBytes 7]
         [RdBytes ''0.0'', RdBytes ''0.0'', RdBytes ''0.0'', RdBytes ''0.0'', RdBytes ''0.0'']))
   \<and> temp_value L0 dev0 (before_attempt dev0 ''TEMP?'' 64 250 4
      (world0 [WrBytes 7, WrBytes 7, WrBytes 7, WrBytes 7, WrBytes 7]
         [RdBytes ''0.0'', RdBytes ''0.0'', RdBytes ''0.0'', RdBytes ''0.0'', RdBytes ''0.0''])) = Finite 0
   \<and> budc_get_temperature_c L0
      (world0 [WrBytes 7, WrBytes 7, WrBytes 7, WrBytes 7, WrBytes 7]
         [RdBytes ''0.0'', RdBytes ''0.0'', RdBytes ''0.0'', RdBytes ''0.0'', RdBytes ''0.0''])
      dev0 (Finite 21)
     = (0, Finite 0, attempt_world dev0 ''TEMP?'' 64 (before_attempt dev0 ''TEMP?'' 64 250 4
         (world0 [WrBytes 7, WrBytes 7, WrBytes 7, WrBytes 7, WrBytes 7]
            [RdBytes ''0.0'', RdBytes ''0.0'', RdBytes ''0.0'', RdBytes ''0.0'', RdBytes ''0.0''])))
   \<and> writes_issued (snd (snd (budc_get_temperature_c L0
      (world0 [WrBytes 7, WrBytes 7, WrBytes 7, WrBytes 7, WrBytes 7]
         [RdBytes ''0.0'', RdBytes ''0.0'', RdBytes ''0.0'', RdBytes ''0.0'', RdBytes ''0.0''])
      dev0 (Finite 21)))) = 5
   \<and> temp_value L0 dev0 (world0 [WrBytes 7, WrBytes 7] [RdBytes ''0.0'', RdBytes ''T=25.5''])
       = Finite 0
   \<and> budc_get_temperature_c L0 (world0 [WrBytes 7, WrBytes 7] [RdBytes ''0.0'', RdBytes ''T=25.5''])
        dev0 (Finite 21)
     = budc_get_temperature_c_loop L0 (before_attempt dev0 ''TEMP?'' 64 250 1
          (world0 [WrBytes 7, WrBytes 7] [RdBytes ''0.0'', RdBytes ''T=25.5''])) dev0 (Finite 21) 1
   \<and> budc_get_temperature_c L0 (world0 [WrBytes 7, WrBytes 7] [RdBytes ''0.0'', RdBytes ''T=25.5''])
        dev0 (Finite 21)
     = (0, Finite (51 / 2), attempt_world dev0 ''TEMP?'' 64 (before_attempt dev0 ''TEMP?'' 64 250 1
          (world0 [WrBytes 7, WrBytes 7] [RdBytes ''0.0'', RdBytes ''T=25.5''])))
   \<and> budc_get_temperature_c L0 (world0 [WrBytes 7] [RdBytes ''151'']) dev0 (Finite 21)
     = budc_get_temperature_c_loop L0 (before_attempt dev0 ''TEMP?'' 64 250 1
          (world0 [WrBytes 7] [RdBytes ''151''])) dev0 (Finite 21) 1"
proof -
  let ?w5 = "world0 [WrBytes 7, WrBytes 7, WrBytes 7, WrBytes 7, WrBytes 7]
         [RdBytes ''0.0'', RdBytes ''0.0'', RdBytes ''0.0'', RdBytes ''0.0'', RdBytes ''0.0'']"
  let ?w2 = "world0 [WrBytes 7, WrBytes 7] [RdBytes ''0.0'', RdBytes ''T=25.5'']"
  let ?B = "before_attempt dev0 ''TEMP?'' 64 250"
  have c: "budc_is_connected dev0" by (simp add: run_defs)
  have p0: "temp_parsed dev0 (?B 0 ?w5) \<and> temp_value L0 dev0 (?B 0 ?w5) = Finite 0"
    by (simp add: temp_run_defs retry_run_defs run_defs)
  have p1: "temp_parsed dev0 (?B 1 ?w5) \<and> temp_value L0 dev0 (?B 1 ?w5) = Finite 0"
    by (simp add: temp_run_defs retry_run_defs run_defs)
  have p2: "temp_parsed dev0 (?B 2 ?w5) \<and> temp_value L0 dev0 (?B 2 ?w5) = Finite 0"
    by (simp add: temp_run_defs retry_run_defs run_defs)
  have p3: "temp_parsed dev0 (?B 3 ?w5) \<and> temp_value L0 dev0 (?B 3 ?w5) = Finite 0"
    by (simp add: temp_run_defs retry_run_defs run_defs)
  have p4: "temp_parsed dev0 (?B 4 ?w5) \<and> temp_value L0 dev0 (?B 4 ?w5) = Finite 0"
    by (simp add: temp_run_defs retry_run_defs run_defs)
  have f4: "\<forall>k<4. \<not> temp_ok L0 dev0 k (?B k ?w5)"
    using p0 p1 p2 p3 by (simp add: all_less_4 temp_ok_def)
  note T5 = temperature_acceptance[of L0 ?w5 dev0 "Finite 21" 4 0 ?w5,
      THEN conjunct2, THEN conjunct2, THEN conjunct1]
  have g5: "budc_get_temperature_c L0 ?w5 dev0 (Finite 21)
      = (0, Finite 0, attempt_world dev0 ''TEMP?'' 64 (?B 4 ?w5))"
    using T5 f4 p4 by simp
  have n5: "writes_issued (snd (snd (budc_get_temperature_c L0 ?w5 dev0 (Finite 21)))) = 5"
    unfolding g5
    by (simp add: writes_attempt_world[OF c] writes_before_attempt[OF c])
       (simp add: writes_issued_def world0_def)
  have q0: "temp_parsed dev0 (?B 0 ?w2) \<and> temp_value L0 dev0 (?B 0 ?w2) = Finite 0"
    by (simp add: temp_run_defs retry_run_defs run_defs)
  have q1: "temp_parsed dev0 (?B 1 ?w2) \<and> temp_value L0 dev0 (?B 1 ?w2) = Finite (51 / 2)"
    by (simp add: temp_run_defs retry_run_defs run_defs)
  note T20 = temperature_acceptance[of L0 ?w2 dev0 "Finite 21" 0 0 ?w2,
      THEN conjunct2, THEN conjunct2, THEN conjunct1]
  have g20: "budc_get_temperature_c L0 ?w2 dev0 (Finite 21)
      = budc_get_temperature_c_loop L0 (?B 1 ?w2) dev0 (Finite 21) 1"
    using T20 q0 by simp
  have f1: "\<forall>k<1. \<not> temp_ok L0 dev0 k (?B k ?w2)"
    using q0 by (simp add: temp_ok_def)
  note T21 = temperature_acceptance[of L0 ?w2 dev0 "Finite 21" 1 "51 / 2" ?w2,
      THEN conjunct2, THEN conjunct2, THEN conjunct1]
  have g21: "budc_get_temperature_c L0 ?w2 dev0 (Finite 21)
      = (0, Finite (51 / 2), attempt_world dev0 ''TEMP?'' 64 (?B 1 ?w2))"
    using T21 f1 q1 by simp
  let ?w1 = "world0 [WrBytes 7] [RdBytes ''151'']"
  have r0: "temp_parsed dev0 (?B 0 ?w1) \<and> temp_value L0 dev0 (?B 0 ?w1) = Finite 151"
    by (simp add: temp_run_defs retry_run_defs run_defs)
  note T1 = temperature_acceptance[of L0 ?w1 dev0 "Finite 21" 0 151 ?w1,
      THEN conjunct2, THEN conjunct2, THEN conjunct1]
  have g1: "budc_get_temperature_c L0 ?w1 dev0 (Finite 21)
      = budc_get_temperature_c_loop L0 (?B 1 ?w1) dev0 (Finite 21) 1"
    using T1 r0 by simp
  have v20: "temp_value L0 dev0 ?w2 = Finite 0"
    using q0 by (simp add: before_attempt_def)
  show ?thesis
    using p4 g5 n5 v20 g20 g21 g1 by (intro conjI) (simp_all only: simp_thms)
qed

section \<open>The lock status getter\<close>

lemma atoi_digits_non_digit: "(case cs of [] \<Rightarrow> True | d # ds \<Rightarrow> \<not> isdigit d) \<Longrightarrow> atoi_digits 0 cs = 0"
  by (cases cs) simp_all

lemma int_of_long_small: "- (2 ^ 31) \<le> v \<Longrightarrow> v < 2 ^ 31 \<Longrightarrow> int_of_long v = v"
  by (simp add: int_of_long_def)

lemma atoi_non_numeric:
  assumes "non_numeric r"
  shows "atoi r = 0"
proof -
  have "(case dropWhile isspace r of
          [] \<Rightarrow> 0
        | c # cs \<Rightarrow>
            if c = CHR ''-'' then - atoi_digits 0 cs
            else if c = CHR ''+'' then atoi_digits 0 cs
            else atoi_digits 0 (c # cs)) = 0"
  proof (cases "dropWhile isspace r")
    case Nil
    then show ?thesis by (simp only: list.case)
  next
    case (Cons c cs)
    have nn: "if c = CHR ''-'' \<or> c = CHR ''+''
              then (case cs of [] \<Rightarrow> True | d # ds \<Rightarrow> \<not> isdigit d) else \<not> isdigit c"
      using assms unfolding non_numeric_def Cons by (simp only: list.case)
    show ?thesis
    proof (cases "c = CHR ''-'' \<or> c = CHR ''+''")
      case True
      then have "case cs of [] \<Rightarrow> True | d # ds \<Rightarrow> \<not> isdigit d"
        using nn by simp
      then have "atoi_digits 0 cs = 0" by (rule atoi_digits_non_digit)
      then show ?thesis using True unfolding Cons by (auto simp only: list.case split: if_splits)
    next
      case False
      then have "\<not> isdigit c"
        using nn by simp
      then show ?thesis using False unfolding Cons by (simp del: dropWhile_eq_Nil_conv)
    qed
  qed
  then show ?thesis by (simp add: atoi_def strtol10_def int_of_long_small)
qed

lemmas atoi_run_defs = atoi_def strtol10_def int_of_long_def isspace_def isdigit_def

lemma atoi_one: "atoi ''1'' = 1"
  by (simp add: atoi_run_defs)

lemma atoi_leading_one:
  assumes "t = [] \<or> \<not> isdigit (hd t)"
  shows "atoi (''1'' @ t) = 1"
proof -
  have "atoi_digits 1 t = 1" using assms by (cases t) simp_all
  then show ?thesis by (simp add: atoi_run_defs)
qed

lemma attempt_reply_trimmed:
  assumes "CHR ''?'' \<in> set command" and "attempt_rc dev command len w = 0"
  shows "attempt_reply dev command len w \<noteq> []
         \<and> \<not> isspace (hd (attempt_reply dev command len w))
         \<and> \<not> isspace (last (attempt_reply dev command len w))"
proof -
  have ok: "fst (budc_send_raw_command w dev command (Some []) len) = 0"
    using assms(2) by (simp add: attempt_rc_def)
  have r: "attempt_reply dev command len w = reply_str w command len"
    using send_raw_query_ok_buf[OF assms(1) ok] by (simp add: attempt_reply_def buf_str_def)
  have ne: "reply_str w command len \<noteq> []"
    using send_raw_query_ok_iff[OF assms(1), of w dev "Some []" len] ok by blast
  show ?thesis
    using ne trim_whitespace_ends[of "cstr (take (nat (fst (reply w command len)))
        (snd (reply w command len)))"]
    unfolding r reply_str_def by blast
qed

text \<open>
  C5, as the code has it. When the attempts of the lock getter before attempt \<open>n\<close> fail
  and the exchange of attempt \<open>n\<close> succeeds, the getter returns success whatever the
  reply says, and reports locked exactly when \<^verbatim>\<open>atoi\<close> of the trimmed reply is 1. That
  is so for the reply \<^verbatim>\<open>1\<close> and for every reply that starts with \<^verbatim>\<open>1\<close> followed by something
  other than a digit, such as \<^verbatim>\<open>1abc\<close> or \<^verbatim>\<open>1.9\<close>; a reply in which \<^verbatim>\<open>atoi\<close> finds no number
  is reported unlocked. There is no third outcome.
\<close>

theorem lock_status_atoi:
  "n < 3 \<longrightarrow>
   (\<forall>k<n. attempt_rc dev ''LOCK?'' 16 (before_attempt dev ''LOCK?'' 16 100 k w) \<noteq> 0) \<longrightarrow>
   attempt_rc dev ''LOCK?'' 16 (before_attempt dev ''LOCK?'' 16 100 n w) = 0 \<longrightarrow>
     budc_get_lock_status w dev is_locked
       = (0, atoi (attempt_reply dev ''LOCK?'' 16 (before_attempt dev ''LOCK?'' 16 100 n w)) = 1,
          attempt_world dev ''LOCK?'' 16 (before_attempt dev ''LOCK?'' 16 100 n w))
     \<and> attempt_reply dev ''LOCK?'' 16 (before_attempt dev ''LOCK?'' 16 100 n w) \<noteq> []
     \<and> \<not> isspace (hd (attempt_reply dev ''LOCK?'' 16 (before_attempt dev ''LOCK?'' 16 100 n w)))
     \<and> \<not> isspace (last (attempt_reply dev ''LOCK?'' 16 (before_attempt dev ''LOCK?'' 16 100 n w)))
     \<and> (\<forall>t. attempt_reply dev ''LOCK?'' 16 (before_attempt dev ''LOCK?'' 16 100 n w) = ''1'' @ t \<longrightarrow>
              t = [] \<or> \<not> isdigit (hd t) \<longrightarrow>
              fst (snd (budc_get_lock_status w dev is_locked)))
     \<and> (non_numeric (attempt_reply dev ''LOCK?'' 16 (before_attempt dev ''LOCK?'' 16 100 n w)) \<longrightarrow>
          \<not> fst (snd (budc_get_lock_status w dev is_locked)))"
proof (intro impI)
  assume n: "n < 3"
    and f: "\<forall>k<n. attempt_rc dev ''LOCK?'' 16 (before_attempt dev ''LOCK?'' 16 100 k w) \<noteq> 0"
    and ok: "attempt_rc dev ''LOCK?'' 16 (before_attempt dev ''LOCK?'' 16 100 n w) = 0"
  note s = lock_success[OF n f ok, of is_locked]
  have q: "CHR ''?'' \<in> set ''LOCK?''" by simp
  note t = attempt_reply_trimmed[OF q ok]
  show "budc_get_lock_status w dev is_locked
       = (0, atoi (attempt_reply dev ''LOCK?'' 16 (before_attempt dev ''LOCK?'' 16 100 n w)) = 1,
          attempt_world dev ''LOCK?'' 16 (before_attempt dev ''LOCK?'' 16 100 n w))
     \<and> attempt_reply dev ''LOCK?'' 16 (before_attempt dev ''LOCK?'' 16 100 n w) \<noteq> []
     \<and> \<not> isspace (hd (attempt_reply dev ''LOCK?'' 16 (before_attempt dev ''LOCK?'' 16 100 n w)))
     \<and> \<not> isspace (last (attempt_reply dev ''LOCK?'' 16 (before_attempt dev ''LOCK?'' 16 100 n w)))
     \<and> (\<forall>t. attempt_reply dev ''LOCK?'' 16 (before_attempt dev ''LOCK?'' 16 100 n w) = ''1'' @ t \<longrightarrow>
              t = [] \<or> \<not> isdigit (hd t) \<longrightarrow>
              fst (snd (budc_get_lock_status w dev is_locked)))
     \<and> (non_numeric (attempt_reply dev ''LOCK?'' 16 (before_attempt dev ''LOCK?'' 16 100 n w)) \<longrightarrow>
          \<not> fst (snd (budc_get_lock_status w dev is_locked)))"
    using s t atoi_leading_one atoi_non_numeric by (auto simp del: One_nat_def)
qed

text \<open>
  The malformed reply \<^verbatim>\<open>1abc\<close> is reported locked, and so are \<^verbatim>\<open>01\<close>, \<^verbatim>\<open>+1\<close> and, its
  value wrapping to 1, \<^verbatim>\<open>4294967297\<close>.
\<close>

theorem lock_status_counterexample:
  "attempt_reply dev0 ''LOCK?'' 16 (world0 [WrBytes 7] [RdBytes (''1abc'' @ [CHR 0x0D, CHR 0x0A])])
     = ''1abc''
   \<and> ''1abc'' \<noteq> ''1''
   \<and> budc_get_lock_status (world0 [WrBytes 7] [RdBytes (''1abc'' @ [CHR 0x0D, CHR 0x0A])])
        dev0 False
     = (0, True, attempt_world dev0 ''LOCK?'' 16
          (world0 [WrBytes 7] [RdBytes (''1abc'' @ [CHR 0x0D, CHR 0x0A])]))
   \<and> atoi ''01'' = 1 \<and> atoi ''+1'' = 1 \<and> atoi ''4294967297'' = 1"
proof -
  let ?wc = "world0 [WrBytes 7] [RdBytes (''1abc'' @ [CHR 0x0D, CHR 0x0A])]"
  have a: "attempt_rc dev0 ''LOCK?'' 16 (before_attempt dev0 ''LOCK?'' 16 100 0 ?wc) = 0
      \<and> attempt_reply dev0 ''LOCK?'' 16 (before_attempt dev0 ''LOCK?'' 16 100 0 ?wc) = ''1abc''"
    by (simp add: retry_run_defs run_defs)
  have v: "atoi ''1abc'' = 1" by (simp add: atoi_run_defs)
  have g: "budc_get_lock_status ?wc dev0 False
      = (0, True, attempt_world dev0 ''LOCK?'' 16 ?wc)"
    using lock_success[of 0 dev0 ?wc False] a v by (simp add: before_attempt_nums)
  have r: "attempt_reply dev0 ''LOCK?'' 16 ?wc = ''1abc''"
    using a by (simp add: before_attempt_nums)
  have e: "atoi ''01'' = 1 \<and> atoi ''+1'' = 1 \<and> atoi ''4294967297'' = 1"
    by (simp add: atoi_run_defs)
  show ?thesis using r g e by simp
qed

text \<open>
  The reply \<^verbatim>\<open>1\<close> sets a flag that was clear; the reply \<^verbatim>\<open>ERR: what?\<close> clears a flag that
  was set, and the getter still returns success.
\<close>

theorem lock_status_atoi_witness:
  "attempt_rc dev0 ''LOCK?'' 16 (before_attempt dev0 ''LOCK?'' 16 100 0
      (world0 [WrBytes 7] [RdBytes (''1'' @ [CHR 0x0D, CHR 0x0A])])) = 0
   \<and> attempt_reply dev0 ''LOCK?'' 16 (before_attempt dev0 ''LOCK?'' 16 100 0
      (world0 [WrBytes 7] [RdBytes (''1'' @ [CHR 0x0D, CHR 0x0A])])) = ''1''
   \<and> fst (budc_get_lock_status (world0 [WrBytes 7] [RdBytes (''1'' @ [CHR 0x0D, CHR 0x0A])])
          dev0 False) = 0
   \<and> fst (snd (budc_get_lock_status (world0 [WrBytes 7] [RdBytes (''1'' @ [CHR 0x0D, CHR 0x0A])])
          dev0 False))
   \<and> attempt_rc dev0 ''LOCK?'' 16 (before_attempt dev0 ''LOCK?'' 16 100 0
      (world0 [WrBytes 7] [RdBytes (''ERR: what?'' @ [CHR 0x0D, CHR 0x0A])])) = 0
   \<and> non_numeric (attempt_reply dev0 ''LOCK?'' 16 (before_attempt dev0 ''LOCK?'' 16 100 0
      (world0 [WrBytes 7] [RdBytes (''ERR: what?'' @ [CHR 0x0D, CHR 0x0A])])))
   \<and> fst (budc_get_lock_status
          (world0 [WrBytes 7] [RdBytes (''ERR: what?'' @ [CHR 0x0D, CHR 0x0A])]) dev0 True) = 0
   \<and> \<not> fst (snd (budc_get_lock_status
          (world0 [WrBytes 7] [RdBytes (''ERR: what?'' @ [CHR 0x0D, CHR 0x0A])]) dev0 True))"
proof -
  let ?w1 = "world0 [WrBytes 7] [RdBytes (''1'' @ [CHR 0x0D, CHR 0x0A])]"
  let ?w2 = "world0 [WrBytes 7] [RdBytes (''ERR: what?'' @ [CHR 0x0D, CHR 0x0A])]"
  let ?B = "before_attempt dev0 ''LOCK?'' 16 100"
  have a1: "attempt_rc dev0 ''LOCK?'' 16 (?B 0 ?w1) = 0
      \<and> attempt_reply dev0 ''LOCK?'' 16 (?B 0 ?w1) = ''1''"
    by (simp add: retry_run_defs run_defs)
  have a2: "attempt_rc dev0 ''LOCK?'' 16 (?B 0 ?w2) = 0
      \<and> attempt_reply dev0 ''LOCK?'' 16 (?B 0 ?w2) = ''ERR: what?''"
    by (simp add: retry_run_defs run_defs)
  have nn: "non_numeric ''ERR: what?''"
    by (simp add: non_numeric_def isspace_def isdigit_def)
  note T1 = lock_status_atoi[of 0 dev0 ?w1 False]
  note T2 = lock_status_atoi[of 0 dev0 ?w2 True]
  have g1: "fst (budc_get_lock_status ?w1 dev0 False) = 0
      \<and> fst (snd (budc_get_lock_status ?w1 dev0 False))"
    using T1 a1 atoi_one by simp
  have g2: "fst (budc_get_lock_status ?w2 dev0 True) = 0
      \<and> \<not> fst (snd (budc_get_lock_status ?w2 dev0 True))"
    using T2 a2 nn atoi_non_numeric[OF nn] by simp
  show ?thesis using a1 a2 nn g1 g2 by simp
qed

section \<open>The polling loop\<close>

lemma lock_status_failure_keeps:
  "fst (budc_get_lock_status w dev is_locked) \<noteq> 0 \<Longrightarrow>
   fst (snd (budc_get_lock_status w dev is_locked)) = is_locked"
  using lock_cases[of dev w is_locked] by auto

text \<open>
  One poll: a query that reports lock ends the loop with success. Any other query,
  failed or answered, is followed by a reading of the clock, which ends the loop with
  failure or lets it sleep 200 ms and poll again.
\<close>

lemma wait_loop_locked:
  assumes "budc_get_lock_status w dev False = (0, True, w1)"
  shows "wait_loop L w dev start timeout_ms False = Some (0, w1)"
  using assms by (simp add: wait_loop.simps[of L w])

lemma wait_loop_deadline:
  assumes "\<not> (fst (budc_get_lock_status w dev False) = 0
              \<and> fst (snd (budc_get_lock_status w dev False)))"
    and "fgt (elapsed_ms L (fst (clock (snd (snd (budc_get_lock_status w dev False))))) start)
           (real timeout_ms)"
  shows "wait_loop L w dev start timeout_ms False
           = Some (-1, snd (clock (snd (snd (budc_get_lock_status w dev False)))))"
  using assms
  by (cases "budc_get_lock_status w dev False")
     (auto simp: wait_loop.simps[of L w] split: prod.splits)

lemma wait_loop_poll_again:
  assumes "\<not> (fst (budc_get_lock_status w dev False) = 0
              \<and> fst (snd (budc_get_lock_status w dev False)))"
    and "\<not> fgt (elapsed_ms L (fst (clock (snd (snd (budc_get_lock_status w dev False))))) start)
             (real timeout_ms)"
  shows "wait_loop L w dev start timeout_ms False
           = wait_loop L (scpi_delay 200 (snd (clock (snd (snd (budc_get_lock_status w dev False))))))
               dev start timeout_ms False"
proof -
  obtain rc l w1 where g: "budc_get_lock_status w dev False = (rc, l, w1)"
    by (cases "budc_get_lock_status w dev False") auto
  have l: "\<not> l"
  proof (cases "rc = 0")
    case True
    then show ?thesis using assms(1) g by simp
  next
    case False
    then show ?thesis using lock_status_failure_keeps[of w dev False] g by simp
  qed
  show ?thesis using assms g l by (auto simp: wait_loop.simps[of L w] split: prod.splits)
qed

text \<open>A query that the device answers at once, on a build without the pre-read delay.\<close>

lemma lock_status_answers_0:
  assumes "wr_script w = WrBytes n # ws" and "7 \<le> n"
    and "rd_script w = RdBytes ''0'' # rs" and "\<not> win32 w"
  shows "budc_get_lock_status w dev0 is_locked
           = (0, False,
              w\<lparr>wr_script := ws, rd_script := rs,
                trace := trace w @ [Flush, Write (''LOCK?'' @ [CHR 0x0D, CHR 0x0A]) 800,
                                    Read 15 800]\<rparr>)"
proof -
  have s: "budc_send_raw_command w dev0 ''LOCK?'' (Some []) 16
      = (0, Some ''0'',
         w\<lparr>wr_script := ws, rd_script := rs,
           trace := trace w @ [Flush, Write (''LOCK?'' @ [CHR 0x0D, CHR 0x0A]) 800,
                               Read 15 800]\<rparr>)"
    using assms
    by (simp add: budc_send_raw_command_def budc_is_connected_def dev0_def full_command_def
        COMMAND_TERMINATOR_def READ_TIMEOUT_MS_def sp_flush_def sp_blocking_write_def
        sp_blocking_read_next_def wr_result_def rd_result_def Let_def trim_whitespace_def
        cstr_def isspace_def)
  have a0: "atoi ''0'' \<noteq> 1" by (simp add: atoi_run_defs)
  have "budc_get_lock_status w dev0 is_locked
      = (0, atoi (attempt_reply dev0 ''LOCK?'' 16 (before_attempt dev0 ''LOCK?'' 16 100 0 w)) = 1,
         attempt_world dev0 ''LOCK?'' 16 (before_attempt dev0 ''LOCK?'' 16 100 0 w))"
    by (rule lock_success) (simp_all add: before_attempt_nums attempt_rc_def s)
  then show ?thesis
    by (simp add: before_attempt_nums attempt_reply_def attempt_world_def s buf_str_def a0)
qed

lemma wait_loop_answers_0:
  assumes "wr_script w = WrBytes n # ws" and "7 \<le> n"
    and "rd_script w = RdBytes ''0'' # rs" and "\<not> win32 w"
  shows "wait_loop L w dev0 start timeout_ms False =
           (if fgt (elapsed_ms L (clock_at w (clock_calls w)) start) (real timeout_ms)
            then Some (-1, polled w)
            else wait_loop L (scpi_delay 200 (polled w)) dev0 start timeout_ms False)"
  using assms
  by (simp add: wait_loop.simps[of L w] lock_status_answers_0[OF assms] clock_def polled_def)

text \<open>
  C3. \<^verbatim>\<open>budc_wait_for_lock\<close> measures its timeout with \<^verbatim>\<open>clock()\<close>, which counts the
  processor time the process has used; the 200 ms slept between two polls use none. With
  a timeout of 50 ms, a device that answers every query with \<^verbatim>\<open>0\<close> at once and 15.625 ms
  of processor time used from one reading of the clock to the next, the call polls four
  times and returns failure having slept 600 ms: later than 50 ms + 200 ms after it was
  called.
\<close>

theorem wait_for_lock_processor_time:
  "map_option fst (budc_wait_for_lock L0 world_cpu dev0 50) = Some (-1)
   \<and> map_option (\<lambda>r. slept (snd r)) (budc_wait_for_lock L0 world_cpu dev0 50) = Some 600
   \<and> map_option (\<lambda>r. lock_queries (snd r)) (budc_wait_for_lock L0 world_cpu dev0 50) = Some 4
   \<and> \<not> (600::nat) \<le> 50 + 200"
proof -
  have e: "\<not> fgt (elapsed_ms L0 15625 0) 50" "\<not> fgt (elapsed_ms L0 31250 0) 50"
    "\<not> fgt (elapsed_ms L0 46875 0) 50" "fgt (elapsed_ms L0 62500 0) 50"
    by (simp_all add: elapsed_ms_def L0_def)
  define w0 where "w0 = world_cpu\<lparr>clock_calls := 1\<rparr>"
  define w1 where "w1 = scpi_delay 200 (polled w0)"
  define w2 where "w2 = scpi_delay 200 (polled w1)"
  define w3 where "w3 = scpi_delay 200 (polled w2)"
  have s: "budc_wait_for_lock L0 world_cpu dev0 50 = wait_loop L0 w0 dev0 0 50 False"
    by (simp add: budc_wait_for_lock_def clock_def world_cpu_def w0_def)
  have p0: "wait_loop L0 w0 dev0 0 50 False = wait_loop L0 w1 dev0 0 50 False"
    by (subst wait_loop_answers_0[where n = 7])
       (simp_all add: w0_def w1_def world_cpu_def e)
  have p1: "wait_loop L0 w1 dev0 0 50 False = wait_loop L0 w2 dev0 0 50 False"
    by (subst wait_loop_answers_0[where n = 7])
       (simp_all add: w0_def w1_def w2_def world_cpu_def polled_def scpi_delay_def e)
  have p2: "wait_loop L0 w2 dev0 0 50 False = wait_loop L0 w3 dev0 0 50 False"
    by (subst wait_loop_answers_0[where n = 7])
       (simp_all add: w0_def w1_def w2_def w3_def world_cpu_def polled_def scpi_delay_def e)
  have p3: "wait_loop L0 w3 dev0 0 50 False = Some (-1, polled w3)"
    by (subst wait_loop_answers_0[where n = 7])
       (simp_all add: w0_def w1_def w2_def w3_def world_cpu_def polled_def scpi_delay_def e)
  have r: "budc_wait_for_lock L0 world_cpu dev0 50 = Some (-1, polled w3)"
    by (simp only: s p0 p1 p2 p3)
  have sl: "slept (polled w3) = 600"
    by (simp add: w0_def w1_def w2_def w3_def world_cpu_def polled_def scpi_delay_def)
  have q: "lock_queries (polled w3) = 4"
    by (simp add: w0_def w1_def w2_def w3_def world_cpu_def polled_def scpi_delay_def
        lock_queries_def full_command_def COMMAND_TERMINATOR_def READ_TIMEOUT_MS_def)
  show ?thesis by (simp add: r sl q)
qed

section \<open>Setting the frequency and waiting\<close>

lemma set_frequency_trace:
  "trace (snd (budc_set_frequency_ghz L w dev freq_ghz)) = trace w
   \<or> trace (snd (budc_set_frequency_ghz L w dev freq_ghz))
       = trace w @ [Flush, Write (full_command (take 63 (''FREQ '' @ fmt_g10 L freq_ghz @ ''GHZ'')))
                              READ_TIMEOUT_MS]"
  by (auto simp: budc_set_frequency_ghz_def budc_send_raw_command_def sp_flush_def
      sp_blocking_write_def Let_def split: prod.splits list.splits if_splits)

lemma set_frequency_rd_script:
  "rd_script (snd (budc_set_frequency_ghz L w dev freq_ghz)) = rd_script w"
  by (auto simp: budc_set_frequency_ghz_def budc_send_raw_command_def sp_flush_def
      sp_blocking_write_def Let_def split: prod.splits list.splits if_splits)

lemma set_command_not_lock_query:
  "full_command (take 63 (''FREQ '' @ x)) \<noteq> full_command ''LOCK?''"
  by (simp add: full_command_def COMMAND_TERMINATOR_def)

lemma set_frequency_lock_queries:
  "lock_queries (snd (budc_set_frequency_ghz L w dev freq_ghz)) = lock_queries w"
  using set_frequency_trace[of L w dev freq_ghz]
    set_command_not_lock_query[of "fmt_g10 L freq_ghz @ ''GHZ''"]
  by (auto simp: lock_queries_def)

text \<open>
  C4. When the frequency setter fails, \<^verbatim>\<open>budc_set_frequency_and_wait\<close> returns failure in
  the world the setter left: at most the flush and the write of the set command have
  happened, no read and no lock-status query. When the setter succeeds, the result is
  that of \<^verbatim>\<open>budc_wait_for_lock\<close> with the caller's timeout, started after a delay of 200 ms.
\<close>

theorem set_frequency_and_wait_steps:
  "(fst (budc_set_frequency_ghz L w dev freq_ghz) \<noteq> 0 \<longrightarrow>
      budc_set_frequency_and_wait L w dev freq_ghz timeout_ms
        = Some (-1, snd (budc_set_frequency_ghz L w dev freq_ghz))
      \<and> (trace (snd (budc_set_frequency_ghz L w dev freq_ghz)) = trace w
         \<or> trace (snd (budc_set_frequency_ghz L w dev freq_ghz))
             = trace w @ [Flush,
                 Write (full_command (take 63 (''FREQ '' @ fmt_g10 L freq_ghz @ ''GHZ'')))
                   READ_TIMEOUT_MS])
      \<and> lock_queries (snd (budc_set_frequency_ghz L w dev freq_ghz)) = lock_queries w
      \<and> rd_script (snd (budc_set_frequency_ghz L w dev freq_ghz)) = rd_script w)
   \<and> (fst (budc_set_frequency_ghz L w dev freq_ghz) = 0 \<longrightarrow>
      budc_set_frequency_and_wait L w dev freq_ghz timeout_ms
        = budc_wait_for_lock L (scpi_delay 200 (snd (budc_set_frequency_ghz L w dev freq_ghz)))
            dev timeout_ms)"
proof (intro conjI impI)
  assume f: "fst (budc_set_frequency_ghz L w dev freq_ghz) \<noteq> 0"
  show "budc_set_frequency_and_wait L w dev freq_ghz timeout_ms
        = Some (-1, snd (budc_set_frequency_ghz L w dev freq_ghz))"
    using f by (cases "budc_set_frequency_ghz L w dev freq_ghz")
      (simp add: budc_set_frequency_and_wait_def)
  show "trace (snd (budc_set_frequency_ghz L w dev freq_ghz)) = trace w
         \<or> trace (snd (budc_set_frequency_ghz L w dev freq_ghz))
             = trace w @ [Flush,
                 Write (full_command (take 63 (''FREQ '' @ fmt_g10 L freq_ghz @ ''GHZ'')))
                   READ_TIMEOUT_MS]"
    by (rule set_frequency_trace)
  show "lock_queries (snd (budc_set_frequency_ghz L w dev freq_ghz)) = lock_queries w"
    by (rule set_frequency_lock_queries)
  show "rd_script (snd (budc_set_frequency_ghz L w dev freq_ghz)) = rd_script w"
    by (rule set_frequency_rd_script)
next
  assume "fst (budc_set_frequency_ghz L w dev freq_ghz) = 0"
  then show "budc_set_frequency_and_wait L w dev freq_ghz timeout_ms
        = budc_wait_for_lock L (scpi_delay 200 (snd (budc_set_frequency_ghz L w dev freq_ghz)))
            dev timeout_ms"
    by (cases "budc_set_frequency_ghz L w dev freq_ghz")
      (simp add: budc_set_frequency_and_wait_def)
qed

text \<open>
  Two runs. A line that takes three bytes of the set command: the call fails, and only
  the flush and that write have happened. A line that takes the set command and answers
  the first lock-status query with \<^verbatim>\<open>1\<close>: the call succeeds, having slept 200 ms.
\<close>

theorem set_frequency_and_wait_steps_witness:
  "fst (budc_set_frequency_ghz L0 (world0 [WrBytes 3, WrBytes 7] [RdBytes ''1'']) dev0 (Finite (11 / 2)))
     \<noteq> 0
   \<and> map_option fst (budc_set_frequency_and_wait L0 (world0 [WrBytes 3, WrBytes 7] [RdBytes ''1''])
        dev0 (Finite (11 / 2)) 1000) = Some (-1)
   \<and> map_option (\<lambda>r. trace (snd r)) (budc_set_frequency_and_wait L0
        (world0 [WrBytes 3, WrBytes 7] [RdBytes ''1'']) dev0 (Finite (11 / 2)) 1000)
       = Some [Flush, Write (''FREQ 5.5GHZ'' @ [CHR 0x0D, CHR 0x0A]) 800]
   \<and> map_option (\<lambda>r. lock_queries (snd r)) (budc_set_frequency_and_wait L0
        (world0 [WrBytes 3, WrBytes 7] [RdBytes ''1'']) dev0 (Finite (11 / 2)) 1000) = Some 0
   \<and> map_option (\<lambda>r. rd_script (snd r)) (budc_set_frequency_and_wait L0
        (world0 [WrBytes 3, WrBytes 7] [RdBytes ''1'']) dev0 (Finite (11 / 2)) 1000)
       = Some [RdBytes ''1'']
   \<and> fst (budc_set_frequency_ghz L0 (world0 [WrBytes 13, WrBytes 7] [RdBytes ''1'']) dev0
            (Finite (11 / 2))) = 0
   \<and> map_option fst (budc_set_frequency_and_wait L0 (world0 [WrBytes 13, WrBytes 7] [RdBytes ''1''])
        dev0 (Finite (11 / 2)) 1000) = Some 0
   \<and> map_option (\<lambda>r. slept (snd r)) (budc_set_frequency_and_wait L0
        (world0 [WrBytes 13, WrBytes 7] [RdBytes ''1'']) dev0 (Finite (11 / 2)) 1000) = Some 200
   \<and> map_option (\<lambda>r. lock_queries (snd r)) (budc_set_frequency_and_wait L0
        (world0 [WrBytes 13, WrBytes 7] [RdBytes ''1'']) dev0 (Finite (11 / 2)) 1000) = Some 1"
proof -
  let ?wa = "world0 [WrBytes 3, WrBytes 7] [RdBytes ''1'']"
  let ?wb = "world0 [WrBytes 13, WrBytes 7] [RdBytes ''1'']"
  let ?f = "Finite (11 / 2)"
  have sa: "budc_set_frequency_ghz L0 ?wa dev0 ?f
      = (-1, \<lparr>wr_script = [WrBytes 7], rd_script = [RdBytes ''1''],
               trace = [Flush, Write (''FREQ 5.5GHZ'' @ [CHR 0x0D, CHR 0x0A]) 800],
               slept = 0, win32 = False, clock_at = (\<lambda>k. 0), clock_calls = 0\<rparr>)"
    by (simp add: budc_set_frequency_ghz_def L0_def run_defs)
  note A = set_frequency_and_wait_steps[of L0 ?wa dev0 ?f 1000, THEN conjunct1]
  have c1: "fst (budc_set_frequency_ghz L0 ?wa dev0 ?f) \<noteq> 0" by (simp add: sa)
  have ra: "budc_set_frequency_and_wait L0 ?wa dev0 ?f 1000
      = Some (-1, snd (budc_set_frequency_ghz L0 ?wa dev0 ?f))"
    using A c1 by blast
  have la: "lock_queries (snd (budc_set_frequency_ghz L0 ?wa dev0 ?f)) = lock_queries ?wa"
    using A c1 by blast
  have l0: "lock_queries ?wa = 0" by (simp add: lock_queries_def world0_def)
  have sb: "budc_set_frequency_ghz L0 ?wb dev0 ?f
      = (0, \<lparr>wr_script = [WrBytes 7], rd_script = [RdBytes ''1''],
               trace = [Flush, Write (''FREQ 5.5GHZ'' @ [CHR 0x0D, CHR 0x0A]) 800],
               slept = 0, win32 = False, clock_at = (\<lambda>k. 0), clock_calls = 0\<rparr>)"
    by (simp add: budc_set_frequency_ghz_def L0_def run_defs)
  let ?wc = "scpi_delay 200 (snd (budc_set_frequency_ghz L0 ?wb dev0 ?f))"
  let ?wd = "snd (clock ?wc)"
  note B = set_frequency_and_wait_steps[of L0 ?wb dev0 ?f 1000, THEN conjunct2]
  have c6: "fst (budc_set_frequency_ghz L0 ?wb dev0 ?f) = 0" by (simp add: sb)
  have rb: "budc_set_frequency_and_wait L0 ?wb dev0 ?f 1000 = budc_wait_for_lock L0 ?wc dev0 1000"
    using B c6 by blast
  have wdv: "?wd = \<lparr>wr_script = [WrBytes 7], rd_script = [RdBytes ''1''],
               trace = [Flush, Write (''FREQ 5.5GHZ'' @ [CHR 0x0D, CHR 0x0A]) 800, Delay 200],
               slept = 200, win32 = False, clock_at = (\<lambda>k. 0), clock_calls = 1\<rparr>"
    by (simp add: sb scpi_delay_def clock_def)
  have b0: "attempt_rc dev0 ''LOCK?'' 16 (before_attempt dev0 ''LOCK?'' 16 100 0 ?wd) = 0
      \<and> attempt_reply dev0 ''LOCK?'' 16 (before_attempt dev0 ''LOCK?'' 16 100 0 ?wd) = ''1''"
    unfolding wdv by (simp add: retry_run_defs run_defs)
  have wc: "attempt_world dev0 ''LOCK?'' 16 (before_attempt dev0 ''LOCK?'' 16 100 0 ?wd)
      = \<lparr>wr_script = [], rd_script = [],
         trace = [Flush, Write (''FREQ 5.5GHZ'' @ [CHR 0x0D, CHR 0x0A]) 800, Delay 200,
                  Flush, Write (''LOCK?'' @ [CHR 0x0D, CHR 0x0A]) 800, Read 15 800],
         slept = 200, win32 = False, clock_at = (\<lambda>k. 0), clock_calls = 1\<rparr>"
    unfolding wdv by (simp add: retry_run_defs run_defs)
  have g: "budc_get_lock_status ?wd dev0 False
      = (0, True, attempt_world dev0 ''LOCK?'' 16 (before_attempt dev0 ''LOCK?'' 16 100 0 ?wd))"
    using lock_success[of 0 dev0 ?wd False] b0 atoi_one by simp
  have w: "budc_wait_for_lock L0 ?wc dev0 1000
      = Some (0, attempt_world dev0 ''LOCK?'' 16 (before_attempt dev0 ''LOCK?'' 16 100 0 ?wd))"
    unfolding budc_wait_for_lock_def
    by (simp add: case_prod_beta wait_loop_locked[OF g])
  have c2: "map_option fst (budc_set_frequency_and_wait L0 ?wa dev0 ?f 1000) = Some (-1)"
    by (simp add: ra)
  have c3: "map_option (\<lambda>r. trace (snd r)) (budc_set_frequency_and_wait L0 ?wa dev0 ?f 1000)
       = Some [Flush, Write (''FREQ 5.5GHZ'' @ [CHR 0x0D, CHR 0x0A]) 800]" by (simp add: ra sa)
  have c4: "map_option (\<lambda>r. lock_queries (snd r)) (budc_set_frequency_and_wait L0 ?wa dev0 ?f 1000)
       = Some 0"
    using la l0 by (simp add: ra)
  have c5: "map_option (\<lambda>r. rd_script (snd r)) (budc_set_frequency_and_wait L0 ?wa dev0 ?f 1000)
       = Some [RdBytes ''1'']"
    by (simp add: ra sa)
  have c7: "map_option fst (budc_set_frequency_and_wait L0 ?wb dev0 ?f 1000) = Some 0"
    by (simp add: rb w)
  have c8: "map_option (\<lambda>r. slept (snd r)) (budc_set_frequency_and_wait L0 ?wb dev0 ?f 1000)
       = Some 200"
    by (simp add: rb w wc)
  have c9: "map_option (\<lambda>r. lock_queries (snd r)) (budc_set_frequency_and_wait L0 ?wb dev0 ?f 1000)
       = Some 1"
    by (simp add: rb w wc lock_queries_def full_command_def COMMAND_TERMINATOR_def
        READ_TIMEOUT_MS_def)
  show ?thesis using c1 c2 c3 c4 c5 c6 c7 c8 c9 by (intro conjI)
qed

section \<open>Connecting\<close>

lemma configure_resources:
  "port_objs (configure E p s) = port_objs s \<and> open_ports (configure E p s) = open_ports s
   \<and> heap (configure E p s) = heap s"
  by (simp add: configure_def sp_set_def Let_def)

lemma connect_result:
  "fst (budc_connect E s port_name) =
     (case port_by_name E port_name of
        Inl e \<Rightarrow> None
      | Inr p \<Rightarrow> if open_rc E p \<noteq> SP_OK then None else malloc_result E)"
  by (simp add: budc_connect_def sp_get_port_by_name_def sp_open_def malloc_def
      split: sum.splits sp_return.splits option.splits prod.splits)

lemma connect_ignores_config:
  "fst (budc_connect (E\<lparr>config_rc := c\<rparr>) s port_name) = fst (budc_connect E s port_name)"
  by (simp add: connect_result split: sum.splits)

lemma connect_null_iff:
  "fst (budc_connect E s port_name) = None \<longleftrightarrow>
     (case port_by_name E port_name of
        Inl e \<Rightarrow> True
      | Inr p \<Rightarrow> open_rc E p \<noteq> SP_OK \<or> malloc_result E = None)"
  by (simp add: connect_result split: sum.splits)

lemma connect_null_releases:
  assumes "fst (budc_connect E s port_name) = None"
  shows "port_objs (snd (budc_connect E s port_name)) = port_objs s
         \<and> open_ports (snd (budc_connect E s port_name)) = open_ports s
         \<and> heap (snd (budc_connect E s port_name)) = heap s"
  using assms
  by (simp add: budc_connect_def sp_get_port_by_name_def sp_open_def malloc_def sp_free_port_def
      sp_close_def configure_resources
      split: sum.splits sp_return.splits option.splits prod.splits if_splits)

lemma connect_handle:
  assumes "fst (budc_connect E s port_name) = Some a"
  shows "\<exists>p. port_by_name E port_name = Inr p
           \<and> heap (snd (budc_connect E s port_name)) = (heap s)(a \<mapsto> \<lparr>port = Some p\<rparr>)
           \<and> port_objs (snd (budc_connect E s port_name)) = p # port_objs s
           \<and> open_ports (snd (budc_connect E s port_name)) = p # open_ports s"
  using assms
  by (simp add: budc_connect_def sp_get_port_by_name_def sp_open_def malloc_def
      configure_resources
      split: sum.splits sp_return.splits option.splits prod.splits if_splits)

text \<open>
  C7, as the code has it. \<^verbatim>\<open>budc_connect\<close> returns no handle exactly when the port is not
  found, or cannot be opened, or the handle cannot be allocated; the results of the
  configuration calls play no part. When it returns no handle, the port structures, the
  open ports and the allocated handles are what they were before the call. When it
  returns a handle, the handle is allocated and holds the port, which is open.
\<close>

theorem connect_outcome:
  "(fst (budc_connect E s port_name) = None \<longleftrightarrow>
      (case port_by_name E port_name of
         Inl e \<Rightarrow> True
       | Inr p \<Rightarrow> open_rc E p \<noteq> SP_OK \<or> malloc_result E = None))
   \<and> fst (budc_connect (E\<lparr>config_rc := c\<rparr>) s port_name) = fst (budc_connect E s port_name)
   \<and> (fst (budc_connect E s port_name) = None \<longrightarrow>
        port_objs (snd (budc_connect E s port_name)) = port_objs s
        \<and> open_ports (snd (budc_connect E s port_name)) = open_ports s
        \<and> heap (snd (budc_connect E s port_name)) = heap s)
   \<and> (\<forall>a. fst (budc_connect E s port_name) = Some a \<longrightarrow>
        (\<exists>p. port_by_name E port_name = Inr p
           \<and> heap (snd (budc_connect E s port_name)) = (heap s)(a \<mapsto> \<lparr>port = Some p\<rparr>)
           \<and> port_objs (snd (budc_connect E s port_name)) = p # port_objs s
           \<and> open_ports (snd (budc_connect E s port_name)) = p # open_ports s))"
proof (intro conjI allI impI)
  show "fst (budc_connect E s port_name) = None \<longleftrightarrow>
      (case port_by_name E port_name of
         Inl e \<Rightarrow> True
       | Inr p \<Rightarrow> open_rc E p \<noteq> SP_OK \<or> malloc_result E = None)"
    by (rule connect_null_iff)
  show "fst (budc_connect (E\<lparr>config_rc := c\<rparr>) s port_name) = fst (budc_connect E s port_name)"
    by (rule connect_ignores_config)
next
  assume n: "fst (budc_connect E s port_name) = None"
  note r = connect_null_releases[OF n]
  show "port_objs (snd (budc_connect E s port_name)) = port_objs s" using r by simp
  show "open_ports (snd (budc_connect E s port_name)) = open_ports s"
    using r by simp
  show "heap (snd (budc_connect E s port_name)) = heap s"
    using r by simp
next
  fix a
  assume "fst (budc_connect E s port_name) = Some a"
  then show "\<exists>p. port_by_name E port_name = Inr p
           \<and> heap (snd (budc_connect E s port_name)) = (heap s)(a \<mapsto> \<lparr>port = Some p\<rparr>)
           \<and> port_objs (snd (budc_connect E s port_name)) = p # port_objs s
           \<and> open_ports (snd (budc_connect E s port_name)) = p # open_ports s"
    by (rule connect_handle)
qed

lemmas connect_run_defs = budc_connect_def sp_get_port_by_name_def sp_open_def sp_set_def
  sp_close_def sp_free_port_def malloc_def configure_def env0_def sys0_def Let_def

text \<open>
  Every configuration call fails, and the caller still receives a handle.
\<close>

theorem connect_counterexample:
  "config_rc (env0\<lparr>config_rc := (\<lambda>x. SP_ERR SP_ERR_FAIL)\<rparr>) (Baudrate 9600) = SP_ERR SP_ERR_FAIL
   \<and> fst (budc_connect (env0\<lparr>config_rc := (\<lambda>x. SP_ERR SP_ERR_FAIL)\<rparr>) sys0 ''/dev/ttyUSB0'')
       = Some 7
   \<and> calls (snd (budc_connect (env0\<lparr>config_rc := (\<lambda>x. SP_ERR SP_ERR_FAIL)\<rparr>) sys0
              ''/dev/ttyUSB0''))
       = [Get_port_by_name ''/dev/ttyUSB0'', Open_port 1,
          Config 1 (Baudrate 9600) (SP_ERR SP_ERR_FAIL), Config 1 (Bits 8) (SP_ERR SP_ERR_FAIL),
          Config 1 Parity_none (SP_ERR SP_ERR_FAIL), Config 1 (Stopbits 1) (SP_ERR SP_ERR_FAIL),
          Config 1 Flowcontrol_none (SP_ERR SP_ERR_FAIL), Config 1 Dtr_on (SP_ERR SP_ERR_FAIL),
          Config 1 Rts_on (SP_ERR SP_ERR_FAIL), Malloc, Flush_port 1, Delay_ms 50]"
  by (simp add: connect_run_defs)

text \<open>
  Three runs: the port cannot be opened, and its structure is freed; the handle cannot
  be allocated, and the port is closed and its structure freed; all goes well, and the
  handle at address 7 holds port 1.
\<close>

theorem connect_outcome_witness:
  "fst (budc_connect (env0\<lparr>open_rc := (\<lambda>p. SP_ERR SP_ERR_FAIL)\<rparr>) sys0 ''COM3'') = None
   \<and> port_objs (snd (budc_connect (env0\<lparr>open_rc := (\<lambda>p. SP_ERR SP_ERR_FAIL)\<rparr>) sys0 ''COM3'')) = []
   \<and> calls (snd (budc_connect (env0\<lparr>open_rc := (\<lambda>p. SP_ERR SP_ERR_FAIL)\<rparr>) sys0 ''COM3''))
       = [Get_port_by_name ''COM3'', Open_port 1, Free_port 1]
   \<and> fst (budc_connect (env0\<lparr>malloc_result := None\<rparr>) sys0 ''COM3'') = None
   \<and> port_objs (snd (budc_connect (env0\<lparr>malloc_result := None\<rparr>) sys0 ''COM3'')) = []
   \<and> open_ports (snd (budc_connect (env0\<lparr>malloc_result := None\<rparr>) sys0 ''COM3'')) = []
   \<and> heap (snd (budc_connect (env0\<lparr>malloc_result := None\<rparr>) sys0 ''COM3'')) = Map.empty
   \<and> fst (budc_connect env0 sys0 ''COM3'') = Some 7
   \<and> heap (snd (budc_connect env0 sys0 ''COM3'')) = [7 \<mapsto> \<lparr>port = Some 1\<rparr>]
   \<and> port_objs (snd (budc_connect env0 sys0 ''COM3'')) = [1]
   \<and> open_ports (snd (budc_connect env0 sys0 ''COM3'')) = [1]"
proof -
  let ?Eo = "env0\<lparr>open_rc := (\<lambda>p. SP_ERR SP_ERR_FAIL)\<rparr>"
  let ?Em = "env0\<lparr>malloc_result := None\<rparr>"
  have s: "port_objs sys0 = [] \<and> open_ports sys0 = [] \<and> heap sys0 = Map.empty"
    by (simp add: sys0_def)
  have o: "port_by_name ?Eo ''COM3'' = Inr 1 \<and> open_rc ?Eo 1 \<noteq> SP_OK" by (simp add: env0_def)
  have m: "port_by_name ?Em ''COM3'' = Inr 1 \<and> malloc_result ?Em = None" by (simp add: env0_def)
  have e: "port_by_name env0 ''COM3'' = Inr 1 \<and> open_rc env0 1 = SP_OK
      \<and> malloc_result env0 = Some 7" by (simp add: env0_def)
  note To = connect_outcome[of ?Eo sys0 "''COM3''" "\<lambda>x. SP_OK"]
  note Tm = connect_outcome[of ?Em sys0 "''COM3''" "\<lambda>x. SP_OK"]
  note Te = connect_outcome[of env0 sys0 "''COM3''" "\<lambda>x. SP_OK"]
  have o1: "fst (budc_connect ?Eo sys0 ''COM3'') = None" using To o by simp
  have o2: "port_objs (snd (budc_connect ?Eo sys0 ''COM3'')) = []" using To o1 s by simp
  have o3: "calls (snd (budc_connect ?Eo sys0 ''COM3''))
      = [Get_port_by_name ''COM3'', Open_port 1, Free_port 1]"
    by (simp add: connect_run_defs)
  have m1: "fst (budc_connect ?Em sys0 ''COM3'') = None" using Tm m by simp
  have m2: "port_objs (snd (budc_connect ?Em sys0 ''COM3'')) = []
      \<and> open_ports (snd (budc_connect ?Em sys0 ''COM3'')) = []
      \<and> heap (snd (budc_connect ?Em sys0 ''COM3'')) = Map.empty" using Tm m1 s by simp
  have e1: "fst (budc_connect env0 sys0 ''COM3'') = Some 7"
    by (simp add: connect_run_defs)
  have e2: "heap (snd (budc_connect env0 sys0 ''COM3'')) = [7 \<mapsto> \<lparr>port = Some 1\<rparr>]
      \<and> port_objs (snd (budc_connect env0 sys0 ''COM3'')) = [1]
      \<and> open_ports (snd (budc_connect env0 sys0 ''COM3'')) = [1]"
    using Te e1 e s by auto
  show ?thesis using o1 o2 o3 m1 m2 e1 e2 by simp
qed

section \<open>Disconnecting\<close>

lemma disconnect_live:
  assumes "heap s a = Some d"
  shows "\<exists>s'. budc_disconnect s (Some a) = Inr s' \<and> heap s' = (heap s)(a := None)
           \<and> (case port d of
                None \<Rightarrow> port_objs s' = port_objs s \<and> open_ports s' = open_ports s
              | Some p \<Rightarrow> port_objs s' = remove1 p (port_objs s)
                          \<and> open_ports s' = remove1 p (open_ports s))"
  using assms
  by (auto simp: budc_disconnect_def free_def sp_free_port_def sp_close_def split: option.splits)

text \<open>
  C8, as the code has it. Given NULL, \<^verbatim>\<open>budc_disconnect\<close> does nothing. Given a live
  handle, it closes the handle's port and frees the port structure (when the handle has
  a port) and frees the handle. Given an address that holds no allocated handle, as the
  one just disconnected, it reads through the pointer all the same: only NULL is
  checked for.
\<close>

theorem disconnect_outcome:
  "budc_disconnect s None = Inr s
   \<and> (heap s a = Some d \<longrightarrow>
        (\<exists>s'. budc_disconnect s (Some a) = Inr s' \<and> heap s' = (heap s)(a := None)
           \<and> (case port d of
                None \<Rightarrow> port_objs s' = port_objs s \<and> open_ports s' = open_ports s
              | Some p \<Rightarrow> port_objs s' = remove1 p (port_objs s)
                          \<and> open_ports s' = remove1 p (open_ports s))))
   \<and> (heap s a = None \<longrightarrow> budc_disconnect s (Some a) = Inl Invalid_pointer)"
  using disconnect_live[of s a d] by (simp add: budc_disconnect_def)

text \<open>
  A handle at address 7 with port 1: the first disconnect releases everything, the
  second, of the same handle, is not a no-op.
\<close>

theorem disconnect_counterexample:
  "budc_disconnect \<lparr>port_objs = [1], open_ports = [1], heap = [7 \<mapsto> \<lparr>port = Some 1\<rparr>], calls = []\<rparr>
       (Some 7)
     = Inr \<lparr>port_objs = [], open_ports = [], heap = Map.empty,
            calls = [Close_port 1, Free_port 1, Free 7]\<rparr>
   \<and> budc_disconnect \<lparr>port_objs = [], open_ports = [], heap = Map.empty,
            calls = [Close_port 1, Free_port 1, Free 7]\<rparr> (Some 7)
     = Inl Invalid_pointer
   \<and> budc_disconnect \<lparr>port_objs = [], open_ports = [], heap = Map.empty,
            calls = [Close_port 1, Free_port 1, Free 7]\<rparr> (Some 7)
     \<noteq> Inr \<lparr>port_objs = [], open_ports = [], heap = Map.empty,
            calls = [Close_port 1, Free_port 1, Free 7]\<rparr>"
  by (simp add: budc_disconnect_def free_def sp_free_port_def sp_close_def)

theorem disconnect_outcome_witness:
  "budc_disconnect sys0 None = Inr sys0
   \<and> heap (snd (budc_connect env0 sys0 ''COM3'')) 7 = Some \<lparr>port = Some 1\<rparr>
   \<and> (\<exists>s'. budc_disconnect (snd (budc_connect env0 sys0 ''COM3'')) (Some 7) = Inr s'
          \<and> heap s' = Map.empty \<and> port_objs s' = [] \<and> open_ports s' = [])
   \<and> heap sys0 7 = None
   \<and> budc_disconnect sys0 (Some 7) = Inl Invalid_pointer"
proof -
  let ?s = "snd (budc_connect env0 sys0 ''COM3'')"
  have h: "heap ?s = [7 \<mapsto> \<lparr>port = Some 1\<rparr>] \<and> port_objs ?s = [1] \<and> open_ports ?s = [1]"
    by (simp add: connect_run_defs)
  have h7: "heap ?s 7 = Some \<lparr>port = Some 1\<rparr>" using h by simp
  note T = disconnect_outcome[of ?s 7 "\<lparr>port = Some 1\<rparr>"]
  have l: "\<exists>s'. budc_disconnect ?s (Some 7) = Inr s'
          \<and> heap s' = Map.empty \<and> port_objs s' = [] \<and> open_ports s' = []"
    using T h7 h by auto
  have n: "heap sys0 7 = None" by (simp add: sys0_def)
  note U = disconnect_outcome[of sys0 7 "\<lparr>port = Some 1\<rparr>"]
  have z: "budc_disconnect sys0 None = Inr sys0" using U by blast
  have f: "budc_disconnect sys0 (Some 7) = Inl Invalid_pointer" using U n by blast
  show ?thesis using z h7 l n f by blast
qed

end
